theory Spec2Isabelle
  imports Main
begin

section \<open>The write serializers of temba/api/serializers.py\<close>

text \<open>
  The embedding follows \<^verbatim>\<open>src/temba/api/serializers.py\<close>. A Python exception is a value
  of \<open>exn\<close>; a function that can raise returns \<open>exn + 'a\<close> with \<open>Inl\<close> for the
  exception. The message of a \<^verbatim>\<open>ValidationError\<close> is kept as the source's format string;
  the value interpolated for \<^verbatim>\<open>%s\<close> or \<^verbatim>\<open>%d\<close> is not modelled.

  The model layer (\<^verbatim>\<open>temba.*.models\<close>) is not under \<^verbatim>\<open>src/\<close>. A database table is
  the list of its rows, a query is a \<open>filter\<close> over that list with the conditions the
  source writes, and a call of a model method that changes the database is recorded, with
  its arguments, in the list of calls a function returns.
\<close>

subsection \<open>Values\<close>

text \<open>A decoded request body. \<open>JFloat\<close> stands for a number that is not integral
  (mantissa and decimal exponent); no field kind of the source accepts one.\<close>

datatype json =
    JNull
  | JBool bool
  | JInt int
  | JFloat int int
  | JStr string
  | JList "json list"
  | JDict "(string \<times> json) list"

datatype exn =
    ValidationError string
  | KeyError string
  | AttributeError
  | TypeError
  | ValueError
  | DoesNotExist
  | MultipleObjectsReturned

text \<open>Python truthiness of an optional string or list: \<^verbatim>\<open>None\<close>, a missing key,
  the empty string and the empty list are false.\<close>

definition truthy :: "'a list option \<Rightarrow> bool" where
  "truthy v = (case v of None \<Rightarrow> False | Some xs \<Rightarrow> xs \<noteq> [])"

text \<open>Modelled from the spec: the telecom scheme tag \<^verbatim>\<open>TEL_SCHEME\<close> is declared in
  \<^verbatim>\<open>temba.contacts.models\<close>, which is not under \<^verbatim>\<open>src/\<close>; no theorem depends on its
  value.\<close>

definition TEL_SCHEME :: string where
  "TEL_SCHEME = ''tel''"

text \<open>The tenant, and the serializer's \<^verbatim>\<open>self.org\<close> and \<^verbatim>\<open>self.user\<close>. Rows refer to
  their tenant by its primary key, which is what Django compares model instances by.\<close>

record org =
  org_id :: nat
  is_anon :: bool

record ctx =
  org :: org
  user :: nat

text \<open>\<^verbatim>\<open>Model.objects.get(...)\<close>: exactly one row must match.\<close>

definition objects_get :: "('a \<Rightarrow> bool) \<Rightarrow> 'a list \<Rightarrow> exn + 'a" where
  "objects_get p rows =
     (case filter p rows of
        [] \<Rightarrow> Inl DoesNotExist
      | [x] \<Rightarrow> Inr x
      | _ \<Rightarrow> Inl MultipleObjectsReturned)"

text \<open>\<^verbatim>\<open>queryset.first()\<close>.\<close>

definition first :: "'a list \<Rightarrow> 'a option" where
  "first rows = (case rows of [] \<Rightarrow> None | x # _ \<Rightarrow> Some x)"

subsection \<open>PhoneArrayField\<close>

text \<open>The loop of \<^verbatim>\<open>PhoneArrayField.from_native\<close> over the list, with the
  accumulator \<^verbatim>\<open>urns\<close>.\<close>

fun phone_urns :: "json list \<Rightarrow> (string \<times> string) list \<Rightarrow> exn + (string \<times> string) list" where
  "phone_urns [] urns = Inr urns"
| "phone_urns (phone # data) urns =
     (case phone of
        JStr s \<Rightarrow> phone_urns data (urns @ [(TEL_SCHEME, s)])
      | _ \<Rightarrow> Inl (ValidationError ''Invalid phone: %s''))"

definition PhoneArrayField_from_native :: "json \<Rightarrow> exn + (string \<times> string) list" where
  "PhoneArrayField_from_native data =
     (case data of
        JStr s \<Rightarrow> Inr [(TEL_SCHEME, s)]
      | JList xs \<Rightarrow>
          if length xs > 100
          then Inl (ValidationError ''You can only specify up to 100 numbers at a time.'')
          else phone_urns xs []
      | _ \<Rightarrow> Inl (ValidationError ''Invalid phone: %s''))"

definition is_JStr :: "json \<Rightarrow> bool" where
  "is_JStr v = (case v of JStr _ \<Rightarrow> True | _ \<Rightarrow> False)"

definition is_JList :: "json \<Rightarrow> bool" where
  "is_JList v = (case v of JList _ \<Rightarrow> True | _ \<Rightarrow> False)"

definition is_ValidationError :: "exn + 'a \<Rightarrow> bool" where
  "is_ValidationError r = (case r of Inl (ValidationError _) \<Rightarrow> True | _ \<Rightarrow> False)"

subsection \<open>MsgBulkActionSerializer\<close>

datatype direction = INCOMING | OUTGOING

record msg =
  msg_pk :: int
  msg_org :: nat
  msg_direction :: direction

record label =
  label_uuid :: string
  label_name :: string
  label_org :: nat

text \<open>The calls \<^verbatim>\<open>restore_object\<close> makes into the model layer:
  \<^verbatim>\<open>label.toggle_label(msgs, add)\<close>, \<^verbatim>\<open>msg.archive()\<close>, \<^verbatim>\<open>msg.restore()\<close> and
  \<^verbatim>\<open>msg.release()\<close>.\<close>

datatype msg_call =
    ToggleLabel label "msg list" bool
  | Archive msg
  | Restore msg
  | Release msg

text \<open>The attributes as they reach \<^verbatim>\<open>restore_object\<close>. \<^verbatim>\<open>messages\<close> and
  \<^verbatim>\<open>action\<close> are required fields. The slot \<^verbatim>\<open>label\<close> holds the raw string of the
  request (\<open>Inl\<close>) until \<^verbatim>\<open>validate_label\<close> or \<^verbatim>\<open>validate_label_uuid\<close> stores the
  resolved Label (\<open>Inr\<close>) in it.\<close>

record bulk_attrs =
  ba_messages :: "int list"
  ba_action :: string
  ba_label :: "(string + label) option"
  ba_label_uuid :: "string option"

definition toggle :: "bulk_attrs \<Rightarrow> msg list \<Rightarrow> bool \<Rightarrow> (exn + unit) \<times> msg_call list" where
  "toggle attrs msgs add =
     (case ba_label attrs of
        None \<Rightarrow> (Inl (KeyError ''label''), [])
      | Some (Inl _) \<Rightarrow> (Inl AttributeError, [])
      | Some (Inr l) \<Rightarrow> (Inr (), [ToggleLabel l msgs add]))"

definition MsgBulkAction_restore_object ::
    "ctx \<Rightarrow> msg list \<Rightarrow> bulk_attrs \<Rightarrow> 'i option \<Rightarrow> (exn + unit) \<times> msg_call list" where
  "MsgBulkAction_restore_object self Msg_objects attrs instance =
     (if instance \<noteq> None then (Inl (ValidationError ''Invalid operation''), [])
      else
        let msg_ids = ba_messages attrs;
            action = ba_action attrs;
            msgs = filter (\<lambda>m. msg_org m = org_id (org self) \<and> msg_direction m = INCOMING
                              \<and> msg_pk m \<in> set msg_ids) Msg_objects
        in if action = ''label'' then toggle attrs msgs True
           else if action = ''unlabel'' then toggle attrs msgs False
           else (Inr (),
                 concat (map (\<lambda>msg. if action = ''archive'' then [Archive msg]
                                     else if action = ''unarchive'' then [Restore msg]
                                     else if action = ''delete'' then [Release msg]
                                     else []) msgs)))"

text \<open>The action names that \<^verbatim>\<open>validate_action\<close> accepts.\<close>

definition bulk_actions :: "string list" where
  "bulk_actions = [''label'', ''unlabel'', ''archive'', ''unarchive'', ''delete'']"

text \<open>What the validators read from the model layer: \<^verbatim>\<open>Label.is_valid_name(name)\<close>,
  the label that \<^verbatim>\<open>Label.get_or_create(org, user, name, None)\<close> returns, and the rows of
  the manager \<^verbatim>\<open>Label.user_labels\<close>. A label that \<^verbatim>\<open>get_or_create\<close> adds is a row of
  the labels and touches no message, so the call is not among the \<open>msg_call\<close>s.\<close>

record label_models =
  is_valid_name :: "string \<Rightarrow> bool"
  label_get_or_create :: "org \<Rightarrow> nat \<Rightarrow> string \<Rightarrow> label"
  user_labels :: "label list"

definition MsgBulkAction_validate :: "bulk_attrs \<Rightarrow> exn + bulk_attrs" where
  "MsgBulkAction_validate attrs =
     (if (ba_action attrs = ''label'' \<or> ba_action attrs = ''unlabel'')
         \<and> \<not> (ba_label attrs \<noteq> None \<or> ba_label_uuid attrs \<noteq> None)
      then Inl (ValidationError ''For action %s you must also specify label or label_uuid'')
      else Inr attrs)"

definition MsgBulkAction_validate_action :: "bulk_attrs \<Rightarrow> exn + bulk_attrs" where
  "MsgBulkAction_validate_action attrs =
     (if ba_action attrs \<notin> set bulk_actions
      then Inl (ValidationError ''Invalid action name: %s'')
      else Inr attrs)"

text \<open>\<^verbatim>\<open>validate_label\<close> runs before \<^verbatim>\<open>validate_label_uuid\<close>, so the slot holds the
  string of the request or nothing when it reads it; the name check of a Label object is
  the model layer's and is taken to raise \<open>TypeError\<close>.\<close>

definition MsgBulkAction_validate_label ::
    "ctx \<Rightarrow> 'm label_models_scheme \<Rightarrow> bulk_attrs \<Rightarrow> exn + bulk_attrs" where
  "MsgBulkAction_validate_label self M attrs =
     (case ba_label attrs of
        None \<Rightarrow> Inr attrs
      | Some (Inr l) \<Rightarrow> Inl TypeError
      | Some (Inl name) \<Rightarrow>
          if name = [] then Inr attrs
          else if \<not> is_valid_name M name
          then Inl (ValidationError ''Label name must not be blank or begin with + or -'')
          else Inr (attrs\<lparr>ba_label :=
                      Some (Inr (label_get_or_create M (org self) (user self) name))\<rparr>))"

definition MsgBulkAction_validate_label_uuid ::
    "ctx \<Rightarrow> 'm label_models_scheme \<Rightarrow> bulk_attrs \<Rightarrow> exn + bulk_attrs" where
  "MsgBulkAction_validate_label_uuid self M attrs =
     (case ba_label_uuid attrs of
        None \<Rightarrow> Inr attrs
      | Some uuid \<Rightarrow>
          if uuid = [] then Inr attrs
          else
            (case first (filter (\<lambda>l. label_org l = org_id (org self) \<and> label_uuid l = uuid)
                           (user_labels M)) of
               None \<Rightarrow> Inl (ValidationError ''No such label with UUID: %s'')
             | Some l \<Rightarrow> Inr (attrs\<lparr>ba_label := Some (Inr l)\<rparr>)))"

text \<open>The label a request's \<^verbatim>\<open>label_uuid\<close> stands for, as \<^verbatim>\<open>validate_label_uuid\<close>
  looks it up.\<close>

definition label_by_uuid :: "ctx \<Rightarrow> 'm label_models_scheme \<Rightarrow> string \<Rightarrow> label option" where
  "label_by_uuid self M uuid =
     first (filter (\<lambda>l. label_org l = org_id (org self) \<and> label_uuid l = uuid) (user_labels M))"

text \<open>The attributes as the fields restore them from a request: the message ids, the
  action, and the optional strings \<^verbatim>\<open>label\<close> and \<^verbatim>\<open>label_uuid\<close>.\<close>

definition bulk_request :: "int list \<Rightarrow> string \<Rightarrow> string option \<Rightarrow> string option \<Rightarrow> bulk_attrs" where
  "bulk_request ids action name uuid =
     \<lparr>ba_messages = ids, ba_action = action, ba_label = map_option Inl name,
      ba_label_uuid = uuid\<rparr>"

definition demo_org :: org where
  "demo_org = \<lparr>org_id = 1, is_anon = False\<rparr>"

definition demo_self :: ctx where
  "demo_self = \<lparr>org = demo_org, user = 7\<rparr>"

definition demo_msgs :: "msg list" where
  "demo_msgs =
     [\<lparr>msg_pk = 1, msg_org = 1, msg_direction = INCOMING\<rparr>,
      \<lparr>msg_pk = 2, msg_org = 1, msg_direction = OUTGOING\<rparr>,
      \<lparr>msg_pk = 3, msg_org = 2, msg_direction = INCOMING\<rparr>]"

definition demo_label :: label where
  "demo_label = \<lparr>label_uuid = ''l-1'', label_name = ''Spam'', label_org = 1\<rparr>"

text \<open>A stand-in for the Label model (\<^verbatim>\<open>temba.msgs.models\<close>, not under \<^verbatim>\<open>src/\<close>), used
  only to evaluate the serializer at concrete requests; its name check follows the message
  of \<^verbatim>\<open>validate_label\<close>.\<close>

definition demo_label_models :: label_models where
  "demo_label_models =
     \<lparr>is_valid_name = (\<lambda>name. name \<noteq> [] \<and> hd name \<noteq> CHR ''+'' \<and> hd name \<noteq> CHR ''-''),
      label_get_or_create =
        (\<lambda>org user name. \<lparr>label_uuid = ''l-new'', label_name = name, label_org = org_id org\<rparr>),
      user_labels = [demo_label]\<rparr>"

subsection \<open>FlowRunStartSerializer\<close>

record flow =
  f_id :: int
  f_uuid :: string
  f_org :: nat
  f_is_active :: bool
  is_archived :: bool

text \<open>The keys of \<^verbatim>\<open>attrs\<close> that \<^verbatim>\<open>validate_flow_uuid\<close> reads or writes; the other
  keys of the serializer are the extension of the record.\<close>

record start_attrs =
  sa_flow_uuid :: "string option"
  sa_flow :: "flow option"

definition FlowRunStart_validate_flow_uuid ::
    "ctx \<Rightarrow> flow list \<Rightarrow> 'z start_attrs_scheme \<Rightarrow> exn + 'z start_attrs_scheme" where
  "FlowRunStart_validate_flow_uuid self Flow_objects attrs =
     (let flow_uuid = sa_flow_uuid attrs in
      if truthy flow_uuid then
        (case objects_get (\<lambda>f. Some (f_uuid f) = flow_uuid) Flow_objects of
           Inl e \<Rightarrow> Inl e
         | Inr flow \<Rightarrow>
             if is_archived flow then Inl (ValidationError ''You cannot start an archived flow.'')
             else if org_id (org self) \<noteq> f_org flow
             then Inl (ValidationError ''Invalid UUID '%s' - flow does not exist.'')
             else Inr (attrs\<lparr>sa_flow := Some flow\<rparr>))
      else Inr attrs)"

definition demo_flows :: "flow list" where
  "demo_flows =
     [\<lparr>f_id = 10, f_uuid = ''flow-a'', f_org = 1, f_is_active = True, is_archived = False\<rparr>,
      \<lparr>f_id = 11, f_uuid = ''flow-b'', f_org = 2, f_is_active = True, is_archived = False\<rparr>,
      \<lparr>f_id = 12, f_uuid = ''flow-c'', f_org = 2, f_is_active = True, is_archived = True\<rparr>]"

definition demo_start :: "string \<Rightarrow> start_attrs" where
  "demo_start uuid = \<lparr>sa_flow_uuid = Some uuid, sa_flow = None\<rparr>"

subsection \<open>ContactWriteSerializer\<close>

record contact =
  contact_uuid :: string
  contact_org :: nat
  contact_is_active :: bool
  contact_urns :: "string list"

record contact_group =
  g_uuid :: string
  g_name :: string
  g_org :: nat
  g_is_active :: bool

text \<open>The attributes as they reach \<^verbatim>\<open>validate\<close>: \<^verbatim>\<open>validate_urns\<close> has replaced the
  URN strings by (scheme, path) pairs and \<^verbatim>\<open>validate_group_uuids\<close> the UUIDs by the groups
  found. \<open>None\<close> is a missing key or the value \<^verbatim>\<open>None\<close>, which \<^verbatim>\<open>attrs.get\<close>
  with a false default does not tell apart.\<close>

record contact_attrs =
  ca_uuid :: "string option"
  ca_name :: "string option"
  ca_language :: "string option"
  ca_urns :: "(string \<times> string) list option"
  ca_group_uuids :: "contact_group list option"
  ca_fields :: "(string \<times> string) list option"
  ca_phone :: "string option"
  ca_groups :: "string list option"

text \<open>\<^verbatim>\<open>"%s:%s" % u\<close>.\<close>

definition urn_string :: "string \<times> string \<Rightarrow> string" where
  "urn_string u = fst u @ '':'' @ snd u"

text \<open>The lookup \<^verbatim>\<open>iexact\<close> of the database: equality that ignores the case of the
  ASCII letters.\<close>

definition lower :: "char \<Rightarrow> char" where
  "lower c =
     (case map_of (zip ''ABCDEFGHIJKLMNOPQRSTUVWXYZ'' ''abcdefghijklmnopqrstuvwxyz'') c of
        Some d \<Rightarrow> d
      | None \<Rightarrow> c)"

definition iexact :: "string \<Rightarrow> string \<Rightarrow> bool" where
  "iexact a b = (map lower a = map lower b)"

text \<open>The query of \<^verbatim>\<open>validate\<close>: the tenant's contacts, of those the ones with a URN
  that matches one of the strings, and of those the ones with another UUID.\<close>

definition other_contacts :: "ctx \<Rightarrow> contact list \<Rightarrow> string list \<Rightarrow> string \<Rightarrow> contact list" where
  "other_contacts self Contact_objects urns_strings uuid =
     filter (\<lambda>c. contact_uuid c \<noteq> uuid)
       (filter (\<lambda>c. list_ex (\<lambda>s. list_ex (\<lambda>u. iexact u s) (contact_urns c)) urns_strings)
          (filter (\<lambda>c. contact_org c = org_id (org self)) Contact_objects))"

definition ContactWrite_validate ::
    "ctx \<Rightarrow> contact list \<Rightarrow> contact_attrs \<Rightarrow> exn + contact_attrs" where
  "ContactWrite_validate self Contact_objects attrs =
     (let urns = ca_urns attrs; phone = ca_phone attrs; uuid = ca_uuid attrs in
      if (\<not> truthy urns \<and> \<not> truthy phone \<and> \<not> truthy uuid) \<or> (truthy urns \<and> truthy phone)
      then Inl (ValidationError ''Must provide either urns, phone or uuid but only one of each'')
      else if truthy (ca_group_uuids attrs) \<and> truthy (ca_groups attrs)
      then Inl (ValidationError
             ''Parameter groups is deprecated and can't be used together with group_uuids'')
      else
        (case uuid of
           None \<Rightarrow> Inr attrs
         | Some u \<Rightarrow>
             if u = [] then Inr attrs
             else
               let urns = (case phone of
                             None \<Rightarrow> urns
                           | Some p \<Rightarrow> if p \<noteq> [] then Some [(TEL_SCHEME, p)] else urns)
               in (case urns of
                     None \<Rightarrow> Inr attrs
                   | Some us \<Rightarrow>
                       if us = [] then Inr attrs
                       else
                         let urns_strings = map urn_string us in
                         if other_contacts self Contact_objects urns_strings u \<noteq> []
                         then (if truthy phone
                               then Inl (ValidationError ''phone %s is used by another contact'')
                               else Inl (ValidationError ''URNs %s are used by other contacts''))
                         else Inr attrs)))"

text \<open>The addresses an input asks for: the legacy phone as a telecom URN when it is given,
  the URN list otherwise.\<close>

definition requested_urns :: "contact_attrs \<Rightarrow> (string \<times> string) list" where
  "requested_urns attrs =
     (case ca_phone attrs of
        Some (c # cs) \<Rightarrow> [(TEL_SCHEME, c # cs)]
      | _ \<Rightarrow> (case ca_urns attrs of Some us \<Rightarrow> us | None \<Rightarrow> []))"

definition demo_contacts :: "contact list" where
  "demo_contacts =
     [\<lparr>contact_uuid = ''c-1'', contact_org = 1, contact_is_active = True,
       contact_urns = [''tel:+250788123123'']\<rparr>,
      \<lparr>contact_uuid = ''c-2'', contact_org = 1, contact_is_active = True,
       contact_urns = [''tel:+250788456456'']\<rparr>]"

definition demo_contact_attrs :: contact_attrs where
  "demo_contact_attrs =
     \<lparr>ca_uuid = None, ca_name = None, ca_language = None, ca_urns = None,
      ca_group_uuids = None, ca_fields = None, ca_phone = None, ca_groups = None\<rparr>"


subsection \<open>The validation pipeline\<close>

text \<open>The error map of a serializer (\<^verbatim>\<open>self._errors\<close>): field name, or the sentinel
  \<^verbatim>\<open>non_field_errors\<close>, to the list of messages.\<close>

type_synonym errors = "(string \<times> string list) list"

definition is_dict :: "json \<Rightarrow> bool" where
  "is_dict data = (case data of JDict _ \<Rightarrow> True | _ \<Rightarrow> False)"

text \<open>\<^verbatim>\<open>WriteSerializer.restore_fields\<close>. \<open>super\<close> is the per-field stage of the
  base class, which the source calls for a mapping only; \<open>no_attrs\<close> is the empty attribute
  mapping \<^verbatim>\<open>{}\<close> the source returns beside the error.\<close>

definition WriteSerializer_restore_fields ::
    "(json \<Rightarrow> errors \<times> 'a) \<Rightarrow> 'a \<Rightarrow> json \<Rightarrow> errors \<times> 'a" where
  "WriteSerializer_restore_fields super no_attrs data =
     (if \<not> is_dict data
      then ([(''non_field_errors'', [''Request body should be a single JSON object''])], no_attrs)
      else super data)"

text \<open>What a serializer class of the source declares: its \<^verbatim>\<open>validate_<field>\<close> methods in
  the order of the field declarations, \<^verbatim>\<open>validate\<close>, and \<^verbatim>\<open>restore_object\<close> (called with
  no instance), which returns its result or exception and the calls it made into the model
  layer.\<close>

record ('a, 'r, 'c) serializer =
  hooks :: "(string \<times> ('a \<Rightarrow> exn + 'a)) list"
  validate :: "'a \<Rightarrow> exn + 'a"
  restore_object :: "'a \<Rightarrow> (exn + 'r) \<times> 'c list"

text \<open>The outcome of a write: the error map, an exception that is not a validation error
  and so is caught by no stage, or the object \<^verbatim>\<open>restore_object\<close> returned. The last two
  carry the calls made into the model layer; a rejected write has made none.\<close>

datatype ('r, 'c) outcome =
    Rejected errors
  | Raised exn "'c list"
  | Restored 'r "'c list"

fun calls_of :: "('r, 'c) outcome \<Rightarrow> 'c list" where
  "calls_of (Rejected errs) = []"
| "calls_of (Raised e calls) = calls"
| "calls_of (Restored r calls) = calls"

text \<open>Modelled from the spec: the driver of the stages (section 4.1) is the serializer base
  class of the web framework, which is not under \<^verbatim>\<open>src/\<close>. Each per-field validator runs
  in declaration order on the attributes the previous one returned, and its validation
  error is collected under the field's name.\<close>

fun run_hooks ::
    "(string \<times> ('a \<Rightarrow> exn + 'a)) list \<Rightarrow> errors \<Rightarrow> 'a \<Rightarrow> exn + (errors \<times> 'a)" where
  "run_hooks [] errs attrs = Inr (errs, attrs)"
| "run_hooks ((field, hook) # rest) errs attrs =
     (case hook attrs of
        Inr attrs' \<Rightarrow> run_hooks rest errs attrs'
      | Inl (ValidationError m) \<Rightarrow> run_hooks rest (errs @ [(field, [m])]) attrs
      | Inl e \<Rightarrow> Inl e)"

text \<open>Modelled from the spec: stages 3 and 4 of section 4.1, for the error map and the
  attributes that stages 1 and 2 produced. The validators run only if there is no error so
  far, \<^verbatim>\<open>validate\<close> only if they added none (its error goes under the sentinel), and the
  mutation only if there is no error at all.\<close>

definition validate_and_restore ::
    "('a, 'r, 'c) serializer \<Rightarrow> errors \<Rightarrow> 'a \<Rightarrow> ('r, 'c) outcome" where
  "validate_and_restore ser errs attrs =
     (if errs \<noteq> [] then Rejected errs
      else
        (case run_hooks (hooks ser) [] attrs of
           Inl e \<Rightarrow> Raised e []
         | Inr (errs', attrs') \<Rightarrow>
             if errs' \<noteq> [] then Rejected errs'
             else
               (case validate ser attrs' of
                  Inl (ValidationError m) \<Rightarrow> Rejected [(''non_field_errors'', [m])]
                | Inl e \<Rightarrow> Raised e []
                | Inr attrs'' \<Rightarrow>
                    (case restore_object ser attrs'' of
                       (Inl e, calls) \<Rightarrow> Raised e calls
                     | (Inr r, calls) \<Rightarrow> Restored r calls))))"

text \<open>Modelled from the spec: the whole pipeline of section 4.1 on a request body. Stage 1
  and the call of stage 2 are \<^verbatim>\<open>WriteSerializer.restore_fields\<close> of the source.\<close>

definition from_native ::
    "(json \<Rightarrow> errors \<times> 'a) \<Rightarrow> 'a \<Rightarrow> ('a, 'r, 'c) serializer \<Rightarrow> json \<Rightarrow> ('r, 'c) outcome" where
  "from_native super no_attrs ser data =
     (case WriteSerializer_restore_fields super no_attrs data of
        (errs, attrs) \<Rightarrow> validate_and_restore ser errs attrs)"

text \<open>\<^verbatim>\<open>MsgBulkActionSerializer\<close> as the pipeline sees it: the validators of
  \<^verbatim>\<open>action\<close>, \<^verbatim>\<open>label\<close> and \<^verbatim>\<open>label_uuid\<close> in the order of the field
  declarations.\<close>

definition MsgBulkActionSerializer ::
    "ctx \<Rightarrow> 'm label_models_scheme \<Rightarrow> msg list \<Rightarrow> (bulk_attrs, unit, msg_call) serializer" where
  "MsgBulkActionSerializer self M Msg_objects =
     \<lparr>hooks = [(''action'', MsgBulkAction_validate_action),
                (''label'', MsgBulkAction_validate_label self M),
                (''label_uuid'', MsgBulkAction_validate_label_uuid self M)],
      validate = MsgBulkAction_validate,
      restore_object =
        (\<lambda>attrs. MsgBulkAction_restore_object self Msg_objects attrs (None :: unit option))\<rparr>"

subsection \<open>CampaignWriteSerializer\<close>

definition truthy_int :: "int option \<Rightarrow> bool" where
  "truthy_int v = (case v of None \<Rightarrow> False | Some n \<Rightarrow> n \<noteq> 0)"

record campaign =
  c_id :: int
  c_uuid :: string
  c_org :: nat
  c_name :: string
  c_group :: contact_group

text \<open>What the serializer reads from the model layer: the result of
  \<^verbatim>\<open>Campaign.get_campaigns(org)\<close>, the rows of the manager \<^verbatim>\<open>ContactGroup.user_groups\<close>,
  and the objects that \<^verbatim>\<open>ContactGroup.get_or_create(org, user, name)\<close> and
  \<^verbatim>\<open>Campaign.create(org, user, name, group)\<close> return.\<close>

record campaign_models =
  get_campaigns :: "org \<Rightarrow> campaign list"
  user_groups :: "contact_group list"
  group_get_or_create :: "org \<Rightarrow> nat \<Rightarrow> string \<Rightarrow> contact_group"
  campaign_create :: "org \<Rightarrow> nat \<Rightarrow> string \<Rightarrow> contact_group \<Rightarrow> campaign"

datatype campaign_call =
    GroupGetOrCreate org nat string
  | CampaignSave campaign
  | CampaignCreate org nat string contact_group

text \<open>The attributes: the five declared fields (\<^verbatim>\<open>name\<close> is required) and the two keys
  the validators add.\<close>

record campaign_attrs =
  cw_uuid :: "string option"
  cw_name :: string
  cw_group_uuid :: "string option"
  cw_campaign :: "int option"
  cw_group :: "string option"
  cw_campaign_obj :: "campaign option"
  cw_group_obj :: "contact_group option"

definition CampaignWrite_validate_uuid ::
    "ctx \<Rightarrow> 'm campaign_models_scheme \<Rightarrow> campaign_attrs \<Rightarrow> exn + campaign_attrs" where
  "CampaignWrite_validate_uuid self M attrs =
     (case cw_uuid attrs of
        None \<Rightarrow> Inr attrs
      | Some uuid \<Rightarrow>
          if uuid = [] then Inr attrs
          else
            (case first (filter (\<lambda>c. c_uuid c = uuid) (get_campaigns M (org self))) of
               Some campaign \<Rightarrow> Inr (attrs\<lparr>cw_campaign_obj := Some campaign\<rparr>)
             | None \<Rightarrow> Inl (ValidationError ''No campaign with UUID %s'')))"

definition CampaignWrite_validate_campaign ::
    "ctx \<Rightarrow> 'm campaign_models_scheme \<Rightarrow> campaign_attrs \<Rightarrow> exn + campaign_attrs" where
  "CampaignWrite_validate_campaign self M attrs =
     (case cw_campaign attrs of
        None \<Rightarrow> Inr attrs
      | Some campaign_id \<Rightarrow>
          if campaign_id = 0 then Inr attrs
          else
            (case first (filter (\<lambda>c. c_id c = campaign_id) (get_campaigns M (org self))) of
               Some campaign \<Rightarrow> Inr (attrs\<lparr>cw_campaign_obj := Some campaign\<rparr>)
             | None \<Rightarrow> Inl (ValidationError ''No campaign with id %d'')))"

definition CampaignWrite_validate_group_uuid ::
    "ctx \<Rightarrow> 'm campaign_models_scheme \<Rightarrow> campaign_attrs \<Rightarrow> exn + campaign_attrs" where
  "CampaignWrite_validate_group_uuid self M attrs =
     (case cw_group_uuid attrs of
        None \<Rightarrow> Inr attrs
      | Some group_uuid \<Rightarrow>
          if group_uuid = [] then Inr attrs
          else
            (case first (filter (\<lambda>g. g_org g = org_id (org self) \<and> g_is_active g
                                      \<and> g_uuid g = group_uuid) (user_groups M)) of
               Some grp \<Rightarrow> Inr (attrs\<lparr>cw_group_obj := Some grp\<rparr>)
             | None \<Rightarrow> Inl (ValidationError ''No contact group with UUID %s'')))"

definition CampaignWrite_validate :: "campaign_attrs \<Rightarrow> exn + campaign_attrs" where
  "CampaignWrite_validate attrs =
     (if \<not> truthy (cw_group attrs) \<and> \<not> truthy (cw_group_uuid attrs)
      then Inl (ValidationError ''Must specify either group name or group_uuid'')
      else if truthy_int (cw_campaign attrs) \<and> truthy (cw_uuid attrs)
      then Inl (ValidationError ''Can't specify both campaign and uuid'')
      else Inr attrs)"

definition CampaignWrite_restore_object ::
    "ctx \<Rightarrow> 'm campaign_models_scheme \<Rightarrow> campaign_attrs \<Rightarrow> 'i option
       \<Rightarrow> (exn + campaign) \<times> campaign_call list" where
  "CampaignWrite_restore_object self M attrs instance =
     (if instance \<noteq> None then (Inl (ValidationError ''Invalid operation''), [])
      else
        (case (case cw_group_obj attrs of
                 Some grp \<Rightarrow> Inr (grp, [])
               | None \<Rightarrow>
                   (case cw_group attrs of
                      None \<Rightarrow> Inl (KeyError ''group'')
                    | Some name \<Rightarrow>
                        Inr (group_get_or_create M (org self) (user self) name,
                             [GroupGetOrCreate (org self) (user self) name]))) of
           Inl e \<Rightarrow> (Inl e, [])
         | Inr (grp, calls) \<Rightarrow>
             (case cw_campaign_obj attrs of
                Some campaign \<Rightarrow>
                  let campaign = campaign\<lparr>c_name := cw_name attrs, c_group := grp\<rparr>
                  in (Inr campaign, calls @ [CampaignSave campaign])
              | None \<Rightarrow>
                  (Inr (campaign_create M (org self) (user self) (cw_name attrs) grp),
                   calls @ [CampaignCreate (org self) (user self) (cw_name attrs) grp]))))"

definition CampaignWriteSerializer ::
    "ctx \<Rightarrow> 'm campaign_models_scheme \<Rightarrow> (campaign_attrs, campaign, campaign_call) serializer" where
  "CampaignWriteSerializer self M =
     \<lparr>hooks = [(''uuid'', CampaignWrite_validate_uuid self M),
                (''group_uuid'', CampaignWrite_validate_group_uuid self M),
                (''campaign'', CampaignWrite_validate_campaign self M)],
      validate = CampaignWrite_validate,
      restore_object = (\<lambda>attrs. CampaignWrite_restore_object self M attrs (None :: unit option))\<rparr>"

text \<open>The group a request's \<^verbatim>\<open>group_uuid\<close> stands for, as \<^verbatim>\<open>validate_group_uuid\<close>
  looks it up.\<close>

definition group_by_uuid :: "ctx \<Rightarrow> 'm campaign_models_scheme \<Rightarrow> string \<Rightarrow> contact_group option" where
  "group_by_uuid self M group_uuid =
     first (filter (\<lambda>g. g_org g = org_id (org self) \<and> g_is_active g \<and> g_uuid g = group_uuid)
              (user_groups M))"

text \<open>The campaign a request's \<^verbatim>\<open>uuid\<close> or \<^verbatim>\<open>campaign\<close> stands for, as
  \<^verbatim>\<open>validate_uuid\<close> and \<^verbatim>\<open>validate_campaign\<close> look it up.\<close>

definition campaign_by_uuid :: "ctx \<Rightarrow> 'm campaign_models_scheme \<Rightarrow> string \<Rightarrow> campaign option" where
  "campaign_by_uuid self M uuid = first (filter (\<lambda>c. c_uuid c = uuid) (get_campaigns M (org self)))"

definition campaign_by_id :: "ctx \<Rightarrow> 'm campaign_models_scheme \<Rightarrow> int \<Rightarrow> campaign option" where
  "campaign_by_id self M campaign_id =
     first (filter (\<lambda>c. c_id c = campaign_id) (get_campaigns M (org self)))"

definition demo_group :: contact_group where
  "demo_group = \<lparr>g_uuid = ''g-1'', g_name = ''Reporters'', g_org = 1, g_is_active = True\<rparr>"

definition demo_campaign_models :: campaign_models where
  "demo_campaign_models =
     \<lparr>get_campaigns = (\<lambda>org. []),
      user_groups = [demo_group],
      group_get_or_create =
        (\<lambda>org user name. \<lparr>g_uuid = ''g-new'', g_name = name, g_org = org_id org, g_is_active = True\<rparr>),
      campaign_create =
        (\<lambda>org user name grp.
           \<lparr>c_id = 1, c_uuid = ''c-new'', c_org = org_id org, c_name = name, c_group = grp\<rparr>)\<rparr>"

definition demo_campaign_attrs :: campaign_attrs where
  "demo_campaign_attrs =
     \<lparr>cw_uuid = None, cw_name = ''Reminders'', cw_group_uuid = Some ''g-1'', cw_campaign = None,
      cw_group = Some ''Farmers'', cw_campaign_obj = None, cw_group_obj = None\<rparr>"


subsection \<open>CampaignEventWriteSerializer\<close>

datatype event_type = FLOW_EVENT | MESSAGE_EVENT

record contact_field =
  cf_key :: string
  cf_label :: string
  cf_org :: nat

record campaign_event =
  e_id :: int
  e_uuid :: string
  e_is_active :: bool
  e_campaign :: campaign
  e_event_type :: event_type
  e_flow :: flow
  e_message :: "string option"
  e_offset :: int
  e_unit :: string
  e_delivery_hour :: int
  e_relative_to :: contact_field

text \<open>What the serializer reads from the model layer: the rows of
  \<^verbatim>\<open>CampaignEvent.objects\<close> and \<^verbatim>\<open>Flow.objects\<close>, the result of
  \<^verbatim>\<open>Campaign.get_campaigns(org)\<close>, and what \<^verbatim>\<open>ContactField.get_by_label\<close>,
  \<^verbatim>\<open>ContactField.api_make_key\<close>, \<^verbatim>\<open>ContactField.get_or_create\<close>,
  \<^verbatim>\<open>Flow.create_single_message\<close>, \<^verbatim>\<open>CampaignEvent.create_flow_event\<close> and
  \<^verbatim>\<open>CampaignEvent.create_message_event\<close> return.\<close>

record event_models =
  ev_events :: "campaign_event list"
  ev_flows :: "flow list"
  ev_get_campaigns :: "org \<Rightarrow> campaign list"
  get_by_label :: "org \<Rightarrow> string \<Rightarrow> contact_field option"
  api_make_key :: "string \<Rightarrow> string"
  field_get_or_create :: "org \<Rightarrow> string \<Rightarrow> string \<Rightarrow> contact_field"
  create_single_message :: "org \<Rightarrow> nat \<Rightarrow> string option \<Rightarrow> flow"
  create_flow_event ::
    "org \<Rightarrow> nat \<Rightarrow> campaign option \<Rightarrow> contact_field \<Rightarrow> int \<Rightarrow> string \<Rightarrow> flow \<Rightarrow> int
       \<Rightarrow> campaign_event"
  create_message_event ::
    "org \<Rightarrow> nat \<Rightarrow> campaign option \<Rightarrow> contact_field \<Rightarrow> int \<Rightarrow> string \<Rightarrow> string option \<Rightarrow> int
       \<Rightarrow> campaign_event"

text \<open>The calls of \<^verbatim>\<open>restore_object\<close> that change the database:
  \<^verbatim>\<open>ContactField.get_or_create(org, key, label)\<close>,
  \<^verbatim>\<open>Flow.create_single_message(org, user, message)\<close>,
  \<^verbatim>\<open>flow.update_single_message_flow(message=...)\<close>, \<^verbatim>\<open>event.save()\<close>,
  \<^verbatim>\<open>event.update_flow_name()\<close> and the two constructors of an event.\<close>

datatype event_call =
    FieldGetOrCreate org string string
  | CreateSingleMessage org nat "string option"
  | UpdateSingleMessageFlow flow string
  | EventSave campaign_event
  | UpdateFlowName campaign_event
  | CreateFlowEvent org nat "campaign option" contact_field int string flow int
  | CreateMessageEvent org nat "campaign option" contact_field int string "string option" int

text \<open>The attributes: the eleven declared fields (\<^verbatim>\<open>offset\<close>, \<^verbatim>\<open>unit\<close>,
  \<^verbatim>\<open>delivery_hour\<close> and \<^verbatim>\<open>relative_to\<close> are required) and the keys \<^verbatim>\<open>event_obj\<close>,
  \<^verbatim>\<open>campaign_obj\<close> and \<^verbatim>\<open>flow_obj\<close> that the validators add.\<close>

record event_attrs =
  ea_uuid :: "string option"
  ea_campaign_uuid :: "string option"
  ea_offset :: int
  ea_unit :: string
  ea_delivery_hour :: int
  ea_relative_to :: string
  ea_message :: "string option"
  ea_flow_uuid :: "string option"
  ea_event :: "int option"
  ea_campaign :: "int option"
  ea_flow :: "int option"
  ea_event_obj :: "campaign_event option"
  ea_campaign_obj :: "campaign option"
  ea_flow_obj :: "flow option"

definition CampaignEventWrite_validate_event ::
    "ctx \<Rightarrow> 'm event_models_scheme \<Rightarrow> event_attrs \<Rightarrow> exn + event_attrs" where
  "CampaignEventWrite_validate_event self M attrs =
     (if truthy_int (ea_event attrs) then
        (case first (filter (\<lambda>e. Some (e_id e) = ea_event attrs \<and> e_is_active e
                                  \<and> c_org (e_campaign e) = org_id (org self)) (ev_events M)) of
           Some event \<Rightarrow> Inr (attrs\<lparr>ea_event_obj := Some event\<rparr>)
         | None \<Rightarrow> Inl (ValidationError ''No event with id %d''))
      else Inr attrs)"

definition CampaignEventWrite_validate_uuid ::
    "ctx \<Rightarrow> 'm event_models_scheme \<Rightarrow> event_attrs \<Rightarrow> exn + event_attrs" where
  "CampaignEventWrite_validate_uuid self M attrs =
     (if truthy (ea_uuid attrs) then
        (case first (filter (\<lambda>e. Some (e_uuid e) = ea_uuid attrs \<and> e_is_active e
                                  \<and> c_org (e_campaign e) = org_id (org self)) (ev_events M)) of
           Some event \<Rightarrow> Inr (attrs\<lparr>ea_event_obj := Some event\<rparr>)
         | None \<Rightarrow> Inl (ValidationError ''No event with UUID %s''))
      else Inr attrs)"

definition CampaignEventWrite_validate_campaign ::
    "ctx \<Rightarrow> 'm event_models_scheme \<Rightarrow> event_attrs \<Rightarrow> exn + event_attrs" where
  "CampaignEventWrite_validate_campaign self M attrs =
     (if truthy_int (ea_campaign attrs) then
        (case first (filter (\<lambda>c. Some (c_id c) = ea_campaign attrs)
                       (ev_get_campaigns M (org self))) of
           Some campaign \<Rightarrow> Inr (attrs\<lparr>ea_campaign_obj := Some campaign\<rparr>)
         | None \<Rightarrow> Inl (ValidationError ''No campaign with id %d''))
      else Inr attrs)"

definition CampaignEventWrite_validate_campaign_uuid ::
    "ctx \<Rightarrow> 'm event_models_scheme \<Rightarrow> event_attrs \<Rightarrow> exn + event_attrs" where
  "CampaignEventWrite_validate_campaign_uuid self M attrs =
     (if truthy (ea_campaign_uuid attrs) then
        (case first (filter (\<lambda>c. Some (c_uuid c) = ea_campaign_uuid attrs)
                       (ev_get_campaigns M (org self))) of
           Some campaign \<Rightarrow> Inr (attrs\<lparr>ea_campaign_obj := Some campaign\<rparr>)
         | None \<Rightarrow> Inl (ValidationError ''No campaign with UUID %s''))
      else Inr attrs)"

definition CampaignEventWrite_validate_unit :: "event_attrs \<Rightarrow> exn + event_attrs" where
  "CampaignEventWrite_validate_unit attrs =
     (if ea_unit attrs \<notin> set [''M'', ''H'', ''D'', ''W'']
      then Inl (ValidationError
             ''Unit must be one of M, H, D or W for Minute, Hour, Day or Week'')
      else Inr attrs)"

definition CampaignEventWrite_validate_delivery_hour :: "event_attrs \<Rightarrow> exn + event_attrs" where
  "CampaignEventWrite_validate_delivery_hour attrs =
     (if ea_delivery_hour attrs < - 1 \<or> ea_delivery_hour attrs > 23
      then Inl (ValidationError ''Delivery hour must be either -1 (for same hour) or 0-23'')
      else Inr attrs)"

definition CampaignEventWrite_validate_flow ::
    "ctx \<Rightarrow> 'm event_models_scheme \<Rightarrow> event_attrs \<Rightarrow> exn + event_attrs" where
  "CampaignEventWrite_validate_flow self M attrs =
     (if truthy_int (ea_flow attrs) then
        (case first (filter (\<lambda>f. Some (f_id f) = ea_flow attrs \<and> f_is_active f
                                  \<and> f_org f = org_id (org self)) (ev_flows M)) of
           Some flow \<Rightarrow> Inr (attrs\<lparr>ea_flow_obj := Some flow\<rparr>)
         | None \<Rightarrow> Inl (ValidationError ''No flow with id %d''))
      else Inr attrs)"

definition CampaignEventWrite_validate_flow_uuid ::
    "ctx \<Rightarrow> 'm event_models_scheme \<Rightarrow> event_attrs \<Rightarrow> exn + event_attrs" where
  "CampaignEventWrite_validate_flow_uuid self M attrs =
     (if truthy (ea_flow_uuid attrs) then
        (case first (filter (\<lambda>f. Some (f_uuid f) = ea_flow_uuid attrs \<and> f_is_active f
                                  \<and> f_org f = org_id (org self)) (ev_flows M)) of
           Some flow \<Rightarrow> Inr (attrs\<lparr>ea_flow_obj := Some flow\<rparr>)
         | None \<Rightarrow> Inl (ValidationError ''No flow with UUID %s''))
      else Inr attrs)"

definition CampaignEventWrite_validate :: "event_attrs \<Rightarrow> exn + event_attrs" where
  "CampaignEventWrite_validate attrs =
     (if \<not> (truthy (ea_message attrs) \<or> ea_flow_obj attrs \<noteq> None)
      then Inl (ValidationError ''Must specify either a flow or a message for the event'')
      else if truthy (ea_message attrs) \<and> ea_flow_obj attrs \<noteq> None
      then Inl (ValidationError ''Events cannot have both a message and a flow'')
      else if ea_event_obj attrs \<noteq> None \<and> ea_campaign_obj attrs \<noteq> None
      then Inl (ValidationError ''Cannot specify campaign if updating an existing event'')
      else Inr attrs)"

text \<open>The branch of \<^verbatim>\<open>restore_object\<close> for an existing event, up to the assignments
  that both branches share: the event as changed in memory, and the calls made.\<close>

definition switch_branch ::
    "ctx \<Rightarrow> 'm event_models_scheme \<Rightarrow> event_attrs \<Rightarrow> campaign_event \<Rightarrow> flow option
       \<Rightarrow> (exn + campaign_event) \<times> event_call list" where
  "switch_branch self M attrs event flow =
     (case flow of
        Some flow \<Rightarrow>
          (Inr (event\<lparr>e_flow := flow, e_event_type := FLOW_EVENT, e_message := None\<rparr>), [])
      | None \<Rightarrow>
          let event = event\<lparr>e_message := ea_message attrs\<rparr> in
          if e_event_type event \<noteq> MESSAGE_EVENT
          then (Inr (event\<lparr>e_flow := create_single_message M (org self) (user self)
                                         (e_message event),
                           e_event_type := MESSAGE_EVENT\<rparr>),
                [CreateSingleMessage (org self) (user self) (e_message event)])
          else (case ea_message attrs of
                  None \<Rightarrow> (Inl (KeyError ''message''), [])
                | Some m \<Rightarrow> (Inr event, [UpdateSingleMessageFlow (e_flow event) m])))"

definition CampaignEventWrite_restore_object ::
    "ctx \<Rightarrow> 'm event_models_scheme \<Rightarrow> event_attrs \<Rightarrow> 'i option
       \<Rightarrow> (exn + campaign_event) \<times> event_call list" where
  "CampaignEventWrite_restore_object self M attrs instance =
     (if instance \<noteq> None then (Inl (ValidationError ''Invalid operation''), [])
      else
        let event = ea_event_obj attrs;
            campaign = ea_campaign_obj attrs;
            offset = ea_offset attrs;
            unit = ea_unit attrs;
            delivery_hour = ea_delivery_hour attrs;
            relative_to_label = ea_relative_to attrs;
            message = ea_message attrs;
            flow = ea_flow_obj attrs;
            (relative_to, calls) =
              (case get_by_label M (org self) relative_to_label of
                 Some field \<Rightarrow> (field, [])
               | None \<Rightarrow>
                   let key = api_make_key M relative_to_label
                   in (field_get_or_create M (org self) key relative_to_label,
                       [FieldGetOrCreate (org self) key relative_to_label]))
        in (case event of
              Some event \<Rightarrow>
                (case switch_branch self M attrs event flow of
                   (Inl e, calls') \<Rightarrow> (Inl e, calls @ calls')
                 | (Inr event, calls') \<Rightarrow>
                     let event = event\<lparr>e_offset := offset, e_unit := unit,
                                       e_delivery_hour := delivery_hour,
                                       e_relative_to := relative_to\<rparr>
                     in (Inr event, calls @ calls' @ [EventSave event, UpdateFlowName event]))
            | None \<Rightarrow>
                (case flow of
                   Some flow \<Rightarrow>
                     let event = create_flow_event M (org self) (user self) campaign relative_to
                                   offset unit flow delivery_hour
                     in (Inr event,
                         calls @ [CreateFlowEvent (org self) (user self) campaign relative_to
                                    offset unit flow delivery_hour,
                                  UpdateFlowName event])
                 | None \<Rightarrow>
                     let event = create_message_event M (org self) (user self) campaign
                                   relative_to offset unit message delivery_hour
                     in (Inr event,
                         calls @ [CreateMessageEvent (org self) (user self) campaign relative_to
                                    offset unit message delivery_hour,
                                  UpdateFlowName event]))))"

definition CampaignEventWriteSerializer ::
    "ctx \<Rightarrow> 'm event_models_scheme \<Rightarrow> (event_attrs, campaign_event, event_call) serializer" where
  "CampaignEventWriteSerializer self M =
     \<lparr>hooks = [(''uuid'', CampaignEventWrite_validate_uuid self M),
                (''campaign_uuid'', CampaignEventWrite_validate_campaign_uuid self M),
                (''unit'', CampaignEventWrite_validate_unit),
                (''delivery_hour'', CampaignEventWrite_validate_delivery_hour),
                (''flow_uuid'', CampaignEventWrite_validate_flow_uuid self M),
                (''event'', CampaignEventWrite_validate_event self M),
                (''campaign'', CampaignEventWrite_validate_campaign self M),
                (''flow'', CampaignEventWrite_validate_flow self M)],
      validate = CampaignEventWrite_validate,
      restore_object =
        (\<lambda>attrs. CampaignEventWrite_restore_object self M attrs (None :: unit option))\<rparr>"

definition demo_campaign :: campaign where
  "demo_campaign =
     \<lparr>c_id = 5, c_uuid = ''camp-1'', c_org = 1, c_name = ''Reminders'', c_group = demo_group\<rparr>"

definition demo_field :: contact_field where
  "demo_field = \<lparr>cf_key = ''edd'', cf_label = ''EDD'', cf_org = 1\<rparr>"

definition hidden_flow :: flow where
  "hidden_flow =
     \<lparr>f_id = 20, f_uuid = ''flow-m'', f_org = 1, f_is_active = True, is_archived = False\<rparr>"

definition new_hidden_flow :: flow where
  "new_hidden_flow =
     \<lparr>f_id = 21, f_uuid = ''flow-n'', f_org = 1, f_is_active = True, is_archived = False\<rparr>"

definition demo_event :: campaign_event where
  "demo_event =
     \<lparr>e_id = 3, e_uuid = ''ev-1'', e_is_active = True, e_campaign = demo_campaign,
      e_event_type = MESSAGE_EVENT, e_flow = hidden_flow, e_message = Some ''Hello'',
      e_offset = 1, e_unit = ''D'', e_delivery_hour = 9, e_relative_to = demo_field\<rparr>"

definition demo_event_models :: event_models where
  "demo_event_models =
     \<lparr>ev_events = [demo_event],
      ev_flows = demo_flows,
      ev_get_campaigns = (\<lambda>org. [demo_campaign]),
      get_by_label = (\<lambda>org label. if label = ''EDD'' then Some demo_field else None),
      api_make_key = (\<lambda>label. label),
      field_get_or_create = (\<lambda>org key label. \<lparr>cf_key = key, cf_label = label, cf_org = org_id org\<rparr>),
      create_single_message = (\<lambda>org user message. new_hidden_flow),
      create_flow_event = (\<lambda>org user campaign relative_to offset unit flow delivery_hour.
         demo_event\<lparr>e_id := 4, e_uuid := ''ev-2'', e_event_type := FLOW_EVENT, e_flow := flow,
                    e_message := None\<rparr>),
      create_message_event = (\<lambda>org user campaign relative_to offset unit message delivery_hour.
         demo_event\<lparr>e_id := 4, e_uuid := ''ev-2'', e_message := message\<rparr>)\<rparr>"

definition demo_event_attrs :: event_attrs where
  "demo_event_attrs =
     \<lparr>ea_uuid = Some ''ev-1'', ea_campaign_uuid = None, ea_offset = 2, ea_unit = ''W'',
      ea_delivery_hour = - 1, ea_relative_to = ''EDD'', ea_message = None,
      ea_flow_uuid = None, ea_event = None, ea_campaign = None, ea_flow = None,
      ea_event_obj = None, ea_campaign_obj = None, ea_flow_obj = None\<rparr>"


subsection \<open>MsgCreateSerializer and BroadcastCreateSerializer\<close>

record channel =
  ch_id :: int
  ch_org :: nat
  ch_is_active :: bool
  ch_country :: string
  ch_last_seen :: int

text \<open>A key whose validator replaces the strings of the request by what they stand
  for: \<open>Raw\<close> as the field restored it, \<open>Resolved\<close> as the validator of the field wrote it
  back. The validator of a field always writes its key, so no slot is \<open>Raw\<close> when
  \<^verbatim>\<open>validate\<close> or \<^verbatim>\<open>restore_object\<close> runs; where the model must still answer, it
  raises \<open>TypeError\<close>.\<close>

datatype 'o slot = Raw "string list" | Resolved "'o list"

definition truthy_slot :: "'o slot option \<Rightarrow> bool" where
  "truthy_slot v =
     (case v of None \<Rightarrow> False | Some (Raw ss) \<Rightarrow> ss \<noteq> [] | Some (Resolved os) \<Rightarrow> os \<noteq> [])"

text \<open>\<^verbatim>\<open>attrs.get(source, [])\<close> as a validator iterates it.\<close>

definition raw_items :: "'o slot option \<Rightarrow> exn + string list" where
  "raw_items v =
     (case v of None \<Rightarrow> Inr [] | Some (Raw ss) \<Rightarrow> Inr ss | Some (Resolved os) \<Rightarrow> Inl TypeError)"

text \<open>\<^verbatim>\<open>attrs.get(key, [])\<close> as \<^verbatim>\<open>restore_object\<close> reads it.\<close>

definition resolved_items :: "'o slot option \<Rightarrow> exn + 'o list" where
  "resolved_items v =
     (case v of None \<Rightarrow> Inr [] | Some (Resolved os) \<Rightarrow> Inr os | Some (Raw ss) \<Rightarrow> Inl TypeError)"

text \<open>\<^verbatim>\<open>attrs.get(key)\<close>, iterated or concatenated: a missing key gives \<^verbatim>\<open>None\<close>, which
  is a \<open>TypeError\<close> there.\<close>

definition resolved_list :: "'o slot option \<Rightarrow> exn + 'o list" where
  "resolved_list v = (case v of Some (Resolved os) \<Rightarrow> Inr os | _ \<Rightarrow> Inl TypeError)"

datatype recipient =
    ToContact contact
  | ToGroup contact_group
  | ToURN contact "string \<times> string"

record broadcast =
  b_id :: int

text \<open>What the two serializers read from the model layer and from the phone number
  library: the rows of \<^verbatim>\<open>Channel.objects\<close>, \<^verbatim>\<open>Contact.objects\<close> and
  \<^verbatim>\<open>ContactGroup.user_groups\<close>; the result of \<^verbatim>\<open>org.get_send_channel(scheme)\<close>;
  \<^verbatim>\<open>ContactURN.parse_urn\<close> (\<open>None\<close> where it raises \<^verbatim>\<open>ValueError\<close>),
  \<^verbatim>\<open>ContactURN.normalize_urn\<close> and \<^verbatim>\<open>ContactURN.validate_urn\<close>; whether
  \<^verbatim>\<open>phonenumbers.parse(phone, code)\<close> succeeds with a possible number; and the objects
  that \<^verbatim>\<open>Contact.get_or_create(org, user, urns=[urn])\<close> and \<^verbatim>\<open>Broadcast.create\<close>
  return.\<close>

record msg_models =
  channels :: "channel list"
  msg_contacts :: "contact list"
  msg_user_groups :: "contact_group list"
  get_send_channel :: "org \<Rightarrow> string \<Rightarrow> channel option"
  parse_urn :: "string \<Rightarrow> (string \<times> string) option"
  normalize_urn :: "string \<Rightarrow> string \<Rightarrow> string option \<Rightarrow> string \<times> string"
  validate_urn :: "string \<Rightarrow> string \<Rightarrow> bool"
  possible_number :: "string \<Rightarrow> string \<Rightarrow> bool"
  contact_get_or_create :: "nat \<Rightarrow> nat \<Rightarrow> (string \<times> string) list \<Rightarrow> contact"
  broadcast_create :: "org \<Rightarrow> nat \<Rightarrow> string \<Rightarrow> recipient list \<Rightarrow> channel option \<Rightarrow> broadcast"

text \<open>The calls that change the database or queue work:
  \<^verbatim>\<open>Contact.get_or_create(org, user, urns)\<close> (the tenant by its primary key),
  \<^verbatim>\<open>Broadcast.create(org, user, text, recipients, channel)\<close>, \<^verbatim>\<open>broadcast.send()\<close> and
  \<^verbatim>\<open>send_broadcast_task.delay(broadcast.id)\<close>.\<close>

datatype send_call =
    ContactGetOrCreate nat nat "(string \<times> string) list"
  | BroadcastCreate org nat string "recipient list" "channel option"
  | BroadcastSend broadcast
  | SendBroadcastTask int

definition invalid_urn :: string where
  "invalid_urn = ''Invalid URN: '%s'' @ [CHR 0x27]"

definition invalid_phone_number :: string where
  "invalid_phone_number = ''Invalid phone number: '%s'' @ [CHR 0x27]"

text \<open>The loop over URN strings that \<^verbatim>\<open>MsgCreateSerializer.validate_urn\<close> and
  \<^verbatim>\<open>BroadcastCreateSerializer.validate_urns\<close> share; \<open>on_parse_error\<close> is what a
  \<^verbatim>\<open>ValueError\<close> of \<^verbatim>\<open>parse_urn\<close> becomes (the first lets it pass, the second turns it
  into a validation error).\<close>

fun normalize_urns ::
    "'m msg_models_scheme \<Rightarrow> exn \<Rightarrow> string option \<Rightarrow> string list \<Rightarrow> (string \<times> string) list
       \<Rightarrow> exn + (string \<times> string) list" where
  "normalize_urns M on_parse_error country [] urns = Inr urns"
| "normalize_urns M on_parse_error country (urn # rest) urns =
     (case parse_urn M urn of
        None \<Rightarrow> Inl on_parse_error
      | Some (scheme, path) \<Rightarrow>
          (case normalize_urn M scheme path country of
             (norm_scheme, norm_path) \<Rightarrow>
               if \<not> validate_urn M norm_scheme norm_path
               then Inl (ValidationError invalid_urn)
               else normalize_urns M on_parse_error country rest
                      (urns @ [(norm_scheme, norm_path)])))"

text \<open>The loop over contact UUIDs of the \<^verbatim>\<open>validate_contact\<close> and \<^verbatim>\<open>validate_contacts\<close>
  methods, and the loop over group UUIDs of \<^verbatim>\<open>validate_groups\<close>.\<close>

fun find_contacts :: "ctx \<Rightarrow> contact list \<Rightarrow> string list \<Rightarrow> contact list \<Rightarrow> exn + contact list" where
  "find_contacts self rows [] contacts = Inr contacts"
| "find_contacts self rows (uuid # rest) contacts =
     (case first (filter (\<lambda>c. contact_uuid c = uuid \<and> contact_org c = org_id (org self)
                               \<and> contact_is_active c) rows) of
        None \<Rightarrow> Inl (ValidationError ''Unable to find contact with uuid: %s'')
      | Some contact \<Rightarrow> find_contacts self rows rest (contacts @ [contact]))"

fun find_groups ::
    "ctx \<Rightarrow> contact_group list \<Rightarrow> string list \<Rightarrow> contact_group list \<Rightarrow> exn + contact_group list" where
  "find_groups self rows [] groups = Inr groups"
| "find_groups self rows (uuid # rest) groups =
     (case first (filter (\<lambda>g. g_uuid g = uuid \<and> g_org g = org_id (org self) \<and> g_is_active g)
                    rows) of
        None \<Rightarrow> Inl (ValidationError ''Unable to find contact group with uuid: %s'')
      | Some grp \<Rightarrow> find_groups self rows rest (groups @ [grp]))"

text \<open>The attributes of \<^verbatim>\<open>MsgCreateSerializer\<close>. For \<^verbatim>\<open>channel\<close>, \<open>None\<close> is a missing
  key and \<open>Some None\<close> the value \<^verbatim>\<open>None\<close>, which is what the field stores when the
  request has no channel: \<^verbatim>\<open>validate_channel\<close> reads \<^verbatim>\<open>attrs[source]\<close> and tests
  \<^verbatim>\<open>not channel\<close>. \<^verbatim>\<open>text\<close> is required.\<close>

record msg_attrs =
  mc_channel :: "channel option option"
  mc_text :: string
  mc_urn :: "(string \<times> string) slot option"
  mc_contact :: "contact slot option"
  mc_phone :: "(string \<times> string) list option"

text \<open>\<^verbatim>\<open>Channel.objects.filter(is_active=True, org=self.org).order_by('-last_seen')\<close>.\<close>

definition org_channels :: "ctx \<Rightarrow> 'm msg_models_scheme \<Rightarrow> channel list" where
  "org_channels self M =
     sort_key (\<lambda>c. - ch_last_seen c)
       (filter (\<lambda>c. ch_is_active c \<and> ch_org c = org_id (org self)) (channels M))"

definition MsgCreate_validate_channel ::
    "ctx \<Rightarrow> 'm msg_models_scheme \<Rightarrow> msg_attrs \<Rightarrow> exn + msg_attrs" where
  "MsgCreate_validate_channel self M attrs =
     (case mc_channel attrs of
        None \<Rightarrow> Inl (KeyError ''channel'')
      | Some channel \<Rightarrow>
          (case (case channel of
                   Some c \<Rightarrow> Inr (c, attrs)
                 | None \<Rightarrow>
                     (case org_channels self M of
                        [] \<Rightarrow> Inl (ValidationError ''There are no channels for this organization.'')
                      | c # _ \<Rightarrow> Inr (c, attrs\<lparr>mc_channel := Some (Some c)\<rparr>))) of
             Inl e \<Rightarrow> Inl e
           | Inr (channel, attrs) \<Rightarrow>
               if org_id (org self) \<noteq> ch_org channel
               then Inl (ValidationError ''Invalid pk '%d' - object does not exist.'')
               else Inr attrs))"

definition MsgCreate_validate_contact ::
    "ctx \<Rightarrow> 'm msg_models_scheme \<Rightarrow> msg_attrs \<Rightarrow> exn + msg_attrs" where
  "MsgCreate_validate_contact self M attrs =
     (case raw_items (mc_contact attrs) of
        Inl e \<Rightarrow> Inl e
      | Inr uuids \<Rightarrow>
          (case find_contacts self (msg_contacts M) uuids [] of
             Inl e \<Rightarrow> Inl e
           | Inr contacts \<Rightarrow> Inr (attrs\<lparr>mc_contact := Some (Resolved contacts)\<rparr>)))"

definition MsgCreate_validate_urn ::
    "ctx \<Rightarrow> 'm msg_models_scheme \<Rightarrow> msg_attrs \<Rightarrow> exn + msg_attrs" where
  "MsgCreate_validate_urn self M attrs =
     (case mc_channel attrs of
        Some (Some channel) \<Rightarrow>
          (case raw_items (mc_urn attrs) of
             Inl e \<Rightarrow> Inl e
           | Inr strings \<Rightarrow>
               (case normalize_urns M ValueError (Some (ch_country channel)) strings [] of
                  Inl e \<Rightarrow> Inl e
                | Inr urns \<Rightarrow> Inr (attrs\<lparr>mc_urn := Some (Resolved urns)\<rparr>)))
      | _ \<Rightarrow> Inl (ValidationError ''You must specify a valid channel''))"

definition MsgCreate_validate_phone ::
    "ctx \<Rightarrow> 'm msg_models_scheme \<Rightarrow> msg_attrs \<Rightarrow> exn + msg_attrs" where
  "MsgCreate_validate_phone self M attrs =
     (if is_anon (org self)
      then Inl (ValidationError ''Cannot create messages for anonymous organizations'')
      else
        (case mc_channel attrs of
           Some (Some channel) \<Rightarrow>
             if list_all (\<lambda>(tel, phone). possible_number M phone (ch_country channel))
                  (case mc_phone attrs of None \<Rightarrow> [] | Some numbers \<Rightarrow> numbers)
             then Inr attrs
             else Inl (ValidationError invalid_phone_number)
         | _ \<Rightarrow> Inl (ValidationError ''You must specify a valid channel'')))"

definition MsgCreate_validate :: "msg_attrs \<Rightarrow> exn + msg_attrs" where
  "MsgCreate_validate attrs =
     (let urns = truthy_slot (mc_urn attrs);
          phone = truthy (mc_phone attrs);
          contact = truthy_slot (mc_contact attrs)
      in if (\<not> urns \<and> \<not> phone \<and> \<not> contact) \<or> (urns \<and> phone)
         then Inl (ValidationError ''Must provide either urns or phone or contact and not both'')
         else Inr attrs)"

definition MsgCreate_restore_object ::
    "ctx \<Rightarrow> 'm msg_models_scheme \<Rightarrow> msg_attrs \<Rightarrow> 'i option \<Rightarrow> (exn + broadcast) \<times> send_call list" where
  "MsgCreate_restore_object self M attrs instance =
     (if instance \<noteq> None then (Inl (ValidationError ''Invalid operation''), [])
      else
        (case (if truthy_slot (mc_urn attrs) then resolved_items (mc_urn attrs)
               else Inr (case mc_phone attrs of None \<Rightarrow> [] | Some numbers \<Rightarrow> numbers)) of
           Inl e \<Rightarrow> (Inl e, [])
         | Inr urns \<Rightarrow>
             (case mc_channel attrs of
                None \<Rightarrow> (Inl (KeyError ''channel''), [])
              | Some channel \<Rightarrow>
                  (case (if urns = [] then Inr []
                         else (case channel of
                                 None \<Rightarrow> Inl AttributeError
                               | Some c \<Rightarrow> Inr (map (\<lambda>urn. (ch_org c, urn)) urns))) of
                     Inl e \<Rightarrow> (Inl e, [])
                   | Inr created \<Rightarrow>
                       let calls = map (\<lambda>(org_pk, urn). ContactGetOrCreate org_pk (user self) [urn]) created;
                           contacts = map (\<lambda>(org_pk, urn). contact_get_or_create M org_pk (user self) [urn])
                                        created
                       in (case resolved_items (mc_contact attrs) of
                             Inl e \<Rightarrow> (Inl e, calls)
                           | Inr uuid_contacts \<Rightarrow>
                               let contacts = contacts @ uuid_contacts;
                                   recipients = map ToContact contacts;
                                   broadcast = broadcast_create M (org self) (user self)
                                                 (mc_text attrs) recipients None
                               in (Inr broadcast,
                                   calls @ [BroadcastCreate (org self) (user self) (mc_text attrs)
                                              recipients None,
                                            BroadcastSend broadcast]))))))"

definition MsgCreateSerializer ::
    "ctx \<Rightarrow> 'm msg_models_scheme \<Rightarrow> (msg_attrs, broadcast, send_call) serializer" where
  "MsgCreateSerializer self M =
     \<lparr>hooks = [(''channel'', MsgCreate_validate_channel self M),
                (''urn'', MsgCreate_validate_urn self M),
                (''contact'', MsgCreate_validate_contact self M),
                (''phone'', MsgCreate_validate_phone self M)],
      validate = MsgCreate_validate,
      restore_object = (\<lambda>attrs. MsgCreate_restore_object self M attrs (None :: unit option))\<rparr>"

text \<open>The attributes of \<^verbatim>\<open>BroadcastCreateSerializer\<close>; \<^verbatim>\<open>text\<close> is required, and
  \<^verbatim>\<open>channel\<close> is as for a message.\<close>

record broadcast_attrs =
  bc_urns :: "(string \<times> string) slot option"
  bc_contacts :: "contact slot option"
  bc_groups :: "contact_group slot option"
  bc_text :: string
  bc_channel :: "channel option option"

definition BroadcastCreate_validate_urns ::
    "ctx \<Rightarrow> 'm msg_models_scheme \<Rightarrow> broadcast_attrs \<Rightarrow> exn + broadcast_attrs" where
  "BroadcastCreate_validate_urns self M attrs =
     (let tel_sender = get_send_channel M (org self) TEL_SCHEME;
          country = (case tel_sender of Some c \<Rightarrow> Some (ch_country c) | None \<Rightarrow> None)
      in (case raw_items (bc_urns attrs) of
            Inl e \<Rightarrow> Inl e
          | Inr strings \<Rightarrow>
              (case normalize_urns M (ValidationError ''e.message'') country strings [] of
                 Inl e \<Rightarrow> Inl e
               | Inr urns \<Rightarrow> Inr (attrs\<lparr>bc_urns := Some (Resolved urns)\<rparr>))))"

definition BroadcastCreate_validate_contacts ::
    "ctx \<Rightarrow> 'm msg_models_scheme \<Rightarrow> broadcast_attrs \<Rightarrow> exn + broadcast_attrs" where
  "BroadcastCreate_validate_contacts self M attrs =
     (case raw_items (bc_contacts attrs) of
        Inl e \<Rightarrow> Inl e
      | Inr uuids \<Rightarrow>
          (case find_contacts self (msg_contacts M) uuids [] of
             Inl e \<Rightarrow> Inl e
           | Inr contacts \<Rightarrow> Inr (attrs\<lparr>bc_contacts := Some (Resolved contacts)\<rparr>)))"

definition BroadcastCreate_validate_groups ::
    "ctx \<Rightarrow> 'm msg_models_scheme \<Rightarrow> broadcast_attrs \<Rightarrow> exn + broadcast_attrs" where
  "BroadcastCreate_validate_groups self M attrs =
     (case raw_items (bc_groups attrs) of
        Inl e \<Rightarrow> Inl e
      | Inr uuids \<Rightarrow>
          (case find_groups self (msg_user_groups M) uuids [] of
             Inl e \<Rightarrow> Inl e
           | Inr groups \<Rightarrow> Inr (attrs\<lparr>bc_groups := Some (Resolved groups)\<rparr>)))"

definition BroadcastCreate_validate_channel ::
    "ctx \<Rightarrow> broadcast_attrs \<Rightarrow> exn + broadcast_attrs" where
  "BroadcastCreate_validate_channel self attrs =
     (case bc_channel attrs of
        Some (Some channel) \<Rightarrow>
          if \<not> (ch_is_active channel \<and> ch_org channel = org_id (org self))
          then Inl (ValidationError ''Invalid pk '%d' - object does not exist.'')
          else Inr attrs
      | _ \<Rightarrow> Inr attrs)"

definition BroadcastCreate_validate :: "broadcast_attrs \<Rightarrow> exn + broadcast_attrs" where
  "BroadcastCreate_validate attrs =
     (if \<not> (truthy_slot (bc_urns attrs) \<or> truthy_slot (bc_contacts attrs)
             \<or> truthy_slot (bc_groups attrs))
      then Inl (ValidationError ''Must provide either urns, contacts or groups'')
      else Inr attrs)"

definition BroadcastCreate_restore_object ::
    "ctx \<Rightarrow> 'm msg_models_scheme \<Rightarrow> broadcast_attrs \<Rightarrow> 'i option
       \<Rightarrow> (exn + broadcast) \<times> send_call list" where
  "BroadcastCreate_restore_object self M attrs instance =
     (if instance \<noteq> None then (Inl (ValidationError ''Invalid operation''), [])
      else
        (case resolved_list (bc_contacts attrs) of
           Inl e \<Rightarrow> (Inl e, [])
         | Inr contacts \<Rightarrow>
        (case resolved_list (bc_groups attrs) of
           Inl e \<Rightarrow> (Inl e, [])
         | Inr groups \<Rightarrow>
        (case resolved_list (bc_urns attrs) of
           Inl e \<Rightarrow> (Inl e, [])
         | Inr urns \<Rightarrow>
             let calls = map (\<lambda>urn. ContactGetOrCreate (org_id (org self)) (user self) [urn]) urns;
                 recipients = map ToContact contacts @ map ToGroup groups
                   @ map (\<lambda>urn. ToURN (contact_get_or_create M (org_id (org self)) (user self)
                                            [urn]) urn) urns
             in (case bc_channel attrs of
                   None \<Rightarrow> (Inl (KeyError ''channel''), calls)
                 | Some channel \<Rightarrow>
                     let broadcast = broadcast_create M (org self) (user self) (bc_text attrs)
                                       recipients channel
                     in (Inr broadcast,
                         calls @ [BroadcastCreate (org self) (user self) (bc_text attrs)
                                    recipients channel,
                                  SendBroadcastTask (b_id broadcast)]))))))"

definition BroadcastCreateSerializer ::
    "ctx \<Rightarrow> 'm msg_models_scheme \<Rightarrow> (broadcast_attrs, broadcast, send_call) serializer" where
  "BroadcastCreateSerializer self M =
     \<lparr>hooks = [(''urns'', BroadcastCreate_validate_urns self M),
                (''contacts'', BroadcastCreate_validate_contacts self M),
                (''groups'', BroadcastCreate_validate_groups self M),
                (''channel'', BroadcastCreate_validate_channel self)],
      validate = BroadcastCreate_validate,
      restore_object =
        (\<lambda>attrs. BroadcastCreate_restore_object self M attrs (None :: unit option))\<rparr>"

text \<open>Modelled from the spec: stand-ins for the addressing engine of section 4.3
  (\<^verbatim>\<open>ContactURN\<close> is in \<^verbatim>\<open>temba.contacts.models\<close>, not under \<^verbatim>\<open>src/\<close>), used only to
  evaluate the serializers at concrete requests. \<open>parse\<close> splits a string at its first
  colon and fails when the separator or the scheme is absent; a telecom path is valid when
  it is a plus sign followed by digits, another path when it is not empty; a path in
  canonical form is normalized to itself.\<close>

definition demo_parse_urn :: "string \<Rightarrow> (string \<times> string) option" where
  "demo_parse_urn s =
     (let scheme = takeWhile (\<lambda>c. c \<noteq> CHR '':'') s;
          rest = dropWhile (\<lambda>c. c \<noteq> CHR '':'') s
      in if scheme = [] \<or> rest = [] then None else Some (scheme, tl rest))"

definition demo_validate_urn :: "string \<Rightarrow> string \<Rightarrow> bool" where
  "demo_validate_urn scheme path =
     (if scheme = TEL_SCHEME
      then (case path of
              [] \<Rightarrow> False
            | c # cs \<Rightarrow> c = CHR ''+'' \<and> cs \<noteq> [] \<and> list_all (\<lambda>d. d \<in> set ''0123456789'') cs)
      else path \<noteq> [])"

definition demo_channel :: channel where
  "demo_channel =
     \<lparr>ch_id = 1, ch_org = 1, ch_is_active = True, ch_country = ''RW'', ch_last_seen = 100\<rparr>"

definition demo_msg_models :: msg_models where
  "demo_msg_models =
     \<lparr>channels = [demo_channel],
      msg_contacts = demo_contacts,
      msg_user_groups = [demo_group],
      get_send_channel = (\<lambda>org scheme. if org_id org = 1 then Some demo_channel else None),
      parse_urn = demo_parse_urn,
      normalize_urn = (\<lambda>scheme path country. (scheme, path)),
      validate_urn = demo_validate_urn,
      possible_number = (\<lambda>phone code. phone \<noteq> []),
      contact_get_or_create =
        (\<lambda>org_pk user urns. \<lparr>contact_uuid = ''c-new'', contact_org = org_pk,
                               contact_is_active = True, contact_urns = map urn_string urns\<rparr>),
      broadcast_create = (\<lambda>org user text recipients channel. \<lparr>b_id = 1\<rparr>)\<rparr>"

definition anon_self :: ctx where
  "anon_self = \<lparr>org = \<lparr>org_id = 1, is_anon = True\<rparr>, user = 7\<rparr>"

definition demo_broadcast_attrs :: broadcast_attrs where
  "demo_broadcast_attrs =
     \<lparr>bc_urns = Some (Raw [''tel:+250788123123'']), bc_contacts = None, bc_groups = None,
      bc_text = ''Hello'', bc_channel = Some None\<rparr>"

definition demo_msg_attrs :: msg_attrs where
  "demo_msg_attrs =
     \<lparr>mc_channel = Some None, mc_text = ''Hello'', mc_urn = None,
      mc_contact = Some (Raw [''c-1'']), mc_phone = None\<rparr>"


section \<open>Properties\<close>

subsection \<open>PhoneArrayField\<close>

lemma phone_urns_strings:
  "phone_urns (map JStr ss) acc = Inr (acc @ map (\<lambda>s. (TEL_SCHEME, s)) ss)"
  by (induction ss arbitrary: acc) simp_all

lemma phone_urns_non_string:
  "\<exists>x\<in>set xs. \<not> is_JStr x \<Longrightarrow> phone_urns xs acc = Inl (ValidationError ''Invalid phone: %s'')"
  by (induction xs arbitrary: acc) (auto simp: is_JStr_def split: json.splits)

text \<open>Claim C8: a single string becomes a one-element list of (telecom scheme, path)
  pairs; a list of at most 100 strings becomes the corresponding list of pairs; a list of
  more than 100 entries, a list with an element that is not a string, and an input that is
  neither a string nor a list all fail with a validation error.\<close>

theorem C8_phone_array_field:
  "PhoneArrayField_from_native (JStr s) = Inr [(TEL_SCHEME, s)]
   \<and> (length ss \<le> 100 \<longrightarrow>
        PhoneArrayField_from_native (JList (map JStr ss)) = Inr (map (\<lambda>s. (TEL_SCHEME, s)) ss))
   \<and> (length xs > 100 \<longrightarrow> is_ValidationError (PhoneArrayField_from_native (JList xs)))
   \<and> ((\<exists>x\<in>set ys. \<not> is_JStr x) \<longrightarrow> is_ValidationError (PhoneArrayField_from_native (JList ys)))
   \<and> (\<not> is_JStr data \<and> \<not> is_JList data \<longrightarrow>
        is_ValidationError (PhoneArrayField_from_native data))"
proof (intro conjI impI)
  show "PhoneArrayField_from_native (JStr s) = Inr [(TEL_SCHEME, s)]"
    by (simp add: PhoneArrayField_from_native_def)
next
  assume "length ss \<le> 100"
  then show "PhoneArrayField_from_native (JList (map JStr ss)) = Inr (map (\<lambda>s. (TEL_SCHEME, s)) ss)"
    by (simp add: PhoneArrayField_from_native_def phone_urns_strings)
next
  assume "length xs > 100"
  then show "is_ValidationError (PhoneArrayField_from_native (JList xs))"
    by (simp add: PhoneArrayField_from_native_def is_ValidationError_def)
next
  assume "\<exists>x\<in>set ys. \<not> is_JStr x"
  then show "is_ValidationError (PhoneArrayField_from_native (JList ys))"
    by (simp add: PhoneArrayField_from_native_def is_ValidationError_def phone_urns_non_string)
next
  assume "\<not> is_JStr data \<and> \<not> is_JList data"
  then show "is_ValidationError (PhoneArrayField_from_native data)"
    by (cases data)
       (simp_all add: PhoneArrayField_from_native_def is_ValidationError_def is_JStr_def is_JList_def)
qed

theorem C8_phone_array_field_witness:
  "PhoneArrayField_from_native (JStr ''+250788123123'') = Inr [(TEL_SCHEME, ''+250788123123'')]
   \<and> PhoneArrayField_from_native (JList (map JStr [''0788123123'', ''0788456456'']))
       = Inr [(TEL_SCHEME, ''0788123123''), (TEL_SCHEME, ''0788456456'')]
   \<and> is_ValidationError (PhoneArrayField_from_native (JList (replicate 101 (JStr ''0788123123''))))
   \<and> is_ValidationError (PhoneArrayField_from_native (JList [JStr ''0788123123'', JInt 5]))
   \<and> is_ValidationError (PhoneArrayField_from_native (JInt 788123123))"
  using C8_phone_array_field [of "''+250788123123''" "[''0788123123'', ''0788456456'']"
      "replicate 101 (JStr ''0788123123'')" "[JStr ''0788123123'', JInt 5]" "JInt 788123123"]
  by (simp add: is_JStr_def is_JList_def)

subsection \<open>MsgBulkActionSerializer\<close>

lemma bulk_hooks_run:
  "run_hooks (hooks (MsgBulkActionSerializer self M Msg_objects)) []
           (bulk_request ids action name uuid)
         = (let e0 = (if action \<notin> set bulk_actions
                      then [(''action'', [''Invalid action name: %s''])] else []);
                e1 = (if name \<noteq> None \<and> the name \<noteq> [] \<and> \<not> is_valid_name M (the name)
                      then [(''label'', [''Label name must not be blank or begin with + or -''])]
                      else []);
                e2 = (if truthy uuid \<and> label_by_uuid self M (the uuid) = None
                      then [(''label_uuid'', [''No such label with UUID: %s''])] else []);
                slot = (if truthy uuid \<and> label_by_uuid self M (the uuid) \<noteq> None
                        then map_option Inr (label_by_uuid self M (the uuid))
                        else if name \<noteq> None \<and> the name \<noteq> [] \<and> is_valid_name M (the name)
                        then Some (Inr (label_get_or_create M (org self) (user self) (the name)))
                        else map_option Inl name)
            in Inr (e0 @ e1 @ e2, \<lparr>ba_messages = ids, ba_action = action, ba_label = slot,
                                    ba_label_uuid = uuid\<rparr>))"
proof -
  have hs: "hooks (MsgBulkActionSerializer self M Msg_objects)
              = [(''action'', MsgBulkAction_validate_action),
                 (''label'', MsgBulkAction_validate_label self M),
                 (''label_uuid'', MsgBulkAction_validate_label_uuid self M)]"
    by (simp add: MsgBulkActionSerializer_def)
  show ?thesis
  proof (cases name)
    case None
    show ?thesis
    proof (cases uuid)
      case None
      with \<open>name = None\<close> show ?thesis
        by (simp add: hs bulk_request_def MsgBulkAction_validate_action_def
            MsgBulkAction_validate_label_def MsgBulkAction_validate_label_uuid_def truthy_def)
    next
      case (Some u)
      with \<open>name = None\<close> show ?thesis
        by (simp add: hs bulk_request_def MsgBulkAction_validate_action_def
            MsgBulkAction_validate_label_def MsgBulkAction_validate_label_uuid_def truthy_def
            label_by_uuid_def split: option.splits)
    qed
  next
    case (Some n)
    show ?thesis
    proof (cases uuid)
      case None
      with \<open>name = Some n\<close> show ?thesis
        by (simp add: hs bulk_request_def MsgBulkAction_validate_action_def
            MsgBulkAction_validate_label_def MsgBulkAction_validate_label_uuid_def truthy_def)
    next
      case (Some u)
      with \<open>name = Some n\<close> show ?thesis
        by (simp add: hs bulk_request_def MsgBulkAction_validate_action_def
            MsgBulkAction_validate_label_def MsgBulkAction_validate_label_uuid_def truthy_def
            label_by_uuid_def split: option.splits)
    qed
  qed
qed

lemma bulk_pipeline_unfold:
  "validate_and_restore (MsgBulkActionSerializer self M Msg_objects) []
     (bulk_request ids action name uuid)
   = (let errs = (if action \<notin> set bulk_actions
                  then [(''action'', [''Invalid action name: %s''])] else [])
               @ (if name \<noteq> None \<and> the name \<noteq> [] \<and> \<not> is_valid_name M (the name)
                  then [(''label'', [''Label name must not be blank or begin with + or -''])]
                  else [])
               @ (if truthy uuid \<and> label_by_uuid self M (the uuid) = None
                  then [(''label_uuid'', [''No such label with UUID: %s''])] else []);
          slot = (if truthy uuid \<and> label_by_uuid self M (the uuid) \<noteq> None
                  then map_option Inr (label_by_uuid self M (the uuid))
                  else if name \<noteq> None \<and> the name \<noteq> [] \<and> is_valid_name M (the name)
                  then Some (Inr (label_get_or_create M (org self) (user self) (the name)))
                  else map_option Inl name);
          attrs = \<lparr>ba_messages = ids, ba_action = action, ba_label = slot,
                   ba_label_uuid = uuid\<rparr>
      in if errs \<noteq> [] then Rejected errs
         else if (action = ''label'' \<or> action = ''unlabel'') \<and> name = None \<and> uuid = None
         then Rejected [(''non_field_errors'',
                 [''For action %s you must also specify label or label_uuid''])]
         else (case MsgBulkAction_restore_object self Msg_objects attrs (None :: unit option) of
                 (Inl e, calls) \<Rightarrow> Raised e calls
               | (Inr r, calls) \<Rightarrow> Restored r calls))"
proof -
  let ?ser = "MsgBulkActionSerializer self M Msg_objects"
  have va: "validate ?ser = MsgBulkAction_validate"
    by (simp add: MsgBulkActionSerializer_def)
  have ro: "restore_object ?ser
              = (\<lambda>a. MsgBulkAction_restore_object self Msg_objects a (None :: unit option))"
    by (simp add: MsgBulkActionSerializer_def)
  show ?thesis
    by (cases name; cases uuid)
      (simp_all add: validate_and_restore_def bulk_hooks_run va ro MsgBulkAction_validate_def
        Let_def truthy_def)
qed

text \<open>The outcome of the pipeline for each of the five actions.\<close>

lemma bulk_archive:
  assumes "name = None \<or> the name = [] \<or> is_valid_name M (the name)"
    and "\<not> truthy uuid \<or> label_by_uuid self M (the uuid) \<noteq> None"
  shows "validate_and_restore (MsgBulkActionSerializer self M Msg_objects) []
           (bulk_request ids ''archive'' name uuid)
         = Restored ()
             (map Archive
                (filter (\<lambda>m. msg_org m = org_id (org self) \<and> msg_direction m = INCOMING
                            \<and> msg_pk m \<in> set ids) Msg_objects))"
  using assms
  by (cases name; cases uuid)
    (simp_all add: bulk_pipeline_unfold Let_def MsgBulkAction_restore_object_def toggle_def
      bulk_actions_def truthy_def)

lemma bulk_unarchive:
  assumes "name = None \<or> the name = [] \<or> is_valid_name M (the name)"
    and "\<not> truthy uuid \<or> label_by_uuid self M (the uuid) \<noteq> None"
  shows "validate_and_restore (MsgBulkActionSerializer self M Msg_objects) []
           (bulk_request ids ''unarchive'' name uuid)
         = Restored ()
             (map Restore
                (filter (\<lambda>m. msg_org m = org_id (org self) \<and> msg_direction m = INCOMING
                            \<and> msg_pk m \<in> set ids) Msg_objects))"
  using assms
  by (cases name; cases uuid)
    (simp_all add: bulk_pipeline_unfold Let_def MsgBulkAction_restore_object_def toggle_def
      bulk_actions_def truthy_def)

lemma bulk_delete:
  assumes "name = None \<or> the name = [] \<or> is_valid_name M (the name)"
    and "\<not> truthy uuid \<or> label_by_uuid self M (the uuid) \<noteq> None"
  shows "validate_and_restore (MsgBulkActionSerializer self M Msg_objects) []
           (bulk_request ids ''delete'' name uuid)
         = Restored ()
             (map Release
                (filter (\<lambda>m. msg_org m = org_id (org self) \<and> msg_direction m = INCOMING
                            \<and> msg_pk m \<in> set ids) Msg_objects))"
  using assms
  by (cases name; cases uuid)
    (simp_all add: bulk_pipeline_unfold Let_def MsgBulkAction_restore_object_def toggle_def
      bulk_actions_def truthy_def)

lemma bulk_label_uuid:
  assumes "name = None \<or> the name = [] \<or> is_valid_name M (the name)"
    and "truthy uuid" and "label_by_uuid self M (the uuid) = Some l"
  shows "validate_and_restore (MsgBulkActionSerializer self M Msg_objects) []
           (bulk_request ids ''label'' name uuid)
         = Restored ()
             [ToggleLabel l
                (filter (\<lambda>m. msg_org m = org_id (org self) \<and> msg_direction m = INCOMING
                            \<and> msg_pk m \<in> set ids) Msg_objects) True]"
  using assms
  by (cases name; cases uuid)
    (simp_all add: bulk_pipeline_unfold Let_def MsgBulkAction_restore_object_def toggle_def
      bulk_actions_def truthy_def)

lemma bulk_label_name:
  assumes "\<not> truthy uuid" and "n \<noteq> []" and "is_valid_name M n"
  shows "validate_and_restore (MsgBulkActionSerializer self M Msg_objects) []
           (bulk_request ids ''label'' (Some n) uuid)
         = Restored ()
             [ToggleLabel (label_get_or_create M (org self) (user self) n)
                (filter (\<lambda>m. msg_org m = org_id (org self) \<and> msg_direction m = INCOMING
                            \<and> msg_pk m \<in> set ids) Msg_objects) True]"
  using assms
  by (cases uuid)
    (simp_all add: bulk_pipeline_unfold Let_def MsgBulkAction_restore_object_def toggle_def
      bulk_actions_def truthy_def)

lemma bulk_label_empty_name:
  assumes "\<not> truthy uuid"
  shows "validate_and_restore (MsgBulkActionSerializer self M Msg_objects) []
           (bulk_request ids ''label'' (Some []) uuid)
         = Raised AttributeError []"
  using assms
  by (cases uuid)
    (simp_all add: bulk_pipeline_unfold Let_def MsgBulkAction_restore_object_def toggle_def
      bulk_actions_def truthy_def)

lemma bulk_label_empty_uuid:
  "validate_and_restore (MsgBulkActionSerializer self M Msg_objects) []
           (bulk_request ids ''label'' None (Some []))
   = Raised (KeyError ''label'') []"
  by (simp add: bulk_pipeline_unfold Let_def MsgBulkAction_restore_object_def toggle_def
      bulk_actions_def truthy_def)

lemma bulk_label_neither:
  "validate_and_restore (MsgBulkActionSerializer self M Msg_objects) []
           (bulk_request ids ''label'' None None)
   = Rejected [(''non_field_errors'',
        [''For action %s you must also specify label or label_uuid''])]"
  by (simp add: bulk_pipeline_unfold Let_def MsgBulkAction_restore_object_def toggle_def
      bulk_actions_def truthy_def)

lemma bulk_unlabel_uuid:
  assumes "name = None \<or> the name = [] \<or> is_valid_name M (the name)"
    and "truthy uuid" and "label_by_uuid self M (the uuid) = Some l"
  shows "validate_and_restore (MsgBulkActionSerializer self M Msg_objects) []
           (bulk_request ids ''unlabel'' name uuid)
         = Restored ()
             [ToggleLabel l
                (filter (\<lambda>m. msg_org m = org_id (org self) \<and> msg_direction m = INCOMING
                            \<and> msg_pk m \<in> set ids) Msg_objects) False]"
  using assms
  by (cases name; cases uuid)
    (simp_all add: bulk_pipeline_unfold Let_def MsgBulkAction_restore_object_def toggle_def
      bulk_actions_def truthy_def)

lemma bulk_unlabel_name:
  assumes "\<not> truthy uuid" and "n \<noteq> []" and "is_valid_name M n"
  shows "validate_and_restore (MsgBulkActionSerializer self M Msg_objects) []
           (bulk_request ids ''unlabel'' (Some n) uuid)
         = Restored ()
             [ToggleLabel (label_get_or_create M (org self) (user self) n)
                (filter (\<lambda>m. msg_org m = org_id (org self) \<and> msg_direction m = INCOMING
                            \<and> msg_pk m \<in> set ids) Msg_objects) False]"
  using assms
  by (cases uuid)
    (simp_all add: bulk_pipeline_unfold Let_def MsgBulkAction_restore_object_def toggle_def
      bulk_actions_def truthy_def)

lemma bulk_unlabel_empty_name:
  assumes "\<not> truthy uuid"
  shows "validate_and_restore (MsgBulkActionSerializer self M Msg_objects) []
           (bulk_request ids ''unlabel'' (Some []) uuid)
         = Raised AttributeError []"
  using assms
  by (cases uuid)
    (simp_all add: bulk_pipeline_unfold Let_def MsgBulkAction_restore_object_def toggle_def
      bulk_actions_def truthy_def)

lemma bulk_unlabel_empty_uuid:
  "validate_and_restore (MsgBulkActionSerializer self M Msg_objects) []
           (bulk_request ids ''unlabel'' None (Some []))
   = Raised (KeyError ''label'') []"
  by (simp add: bulk_pipeline_unfold Let_def MsgBulkAction_restore_object_def toggle_def
      bulk_actions_def truthy_def)

lemma bulk_unlabel_neither:
  "validate_and_restore (MsgBulkActionSerializer self M Msg_objects) []
           (bulk_request ids ''unlabel'' None None)
   = Rejected [(''non_field_errors'',
        [''For action %s you must also specify label or label_uuid''])]"
  by (simp add: bulk_pipeline_unfold Let_def MsgBulkAction_restore_object_def toggle_def
      bulk_actions_def truthy_def)

lemma bulk_rejected:
  assumes "action \<notin> set bulk_actions
        \<or> \<not> (name = None \<or> the name = [] \<or> is_valid_name M (the name))
        \<or> \<not> (\<not> truthy uuid \<or> label_by_uuid self M (the uuid) \<noteq> None)"
  shows "\<exists>errs. validate_and_restore (MsgBulkActionSerializer self M Msg_objects) []
           (bulk_request ids action name uuid)
                = Rejected errs"
  using assms
  by (cases name; cases uuid) (auto simp: bulk_pipeline_unfold Let_def truthy_def)

text \<open>The message ids of a request matter only through the messages they select.\<close>

lemma bulk_same_msgs:
  assumes "filter (\<lambda>m. msg_org m = org_id (org self) \<and> msg_direction m = INCOMING
                         \<and> msg_pk m \<in> set ids') Msg_objects
           = filter (\<lambda>m. msg_org m = org_id (org self) \<and> msg_direction m = INCOMING
                           \<and> msg_pk m \<in> set ids) Msg_objects"
  shows "validate_and_restore (MsgBulkActionSerializer self M Msg_objects) []
           (bulk_request ids' action name uuid)
         = validate_and_restore (MsgBulkActionSerializer self M Msg_objects) []
           (bulk_request ids action name uuid)"
  using assms
  by (simp add: bulk_pipeline_unfold Let_def MsgBulkAction_restore_object_def toggle_def)

text \<open>Claim C10: a bulk action request through the validators and \<^verbatim>\<open>restore_object\<close>.
  Let \<open>msgs\<close> be the incoming messages of the caller's tenant whose ids are in the
  request, in the order of the query. \<^verbatim>\<open>archive\<close>, \<^verbatim>\<open>unarchive\<close> and \<^verbatim>\<open>delete\<close>
  call \<^verbatim>\<open>archive()\<close>, \<^verbatim>\<open>restore()\<close> and \<^verbatim>\<open>release()\<close> once on each of \<open>msgs\<close> and
  on nothing else; \<^verbatim>\<open>label\<close> and \<^verbatim>\<open>unlabel\<close> with the \<^verbatim>\<open>label_uuid\<close> of one of the
  tenant's labels, or else with a valid non-empty \<^verbatim>\<open>label\<close> name, make one
  \<^verbatim>\<open>toggle_label\<close> call on \<open>msgs\<close>. Two requests that select the same messages have
  the same outcome, so an id of an outgoing message, of another tenant's message or of no
  message changes nothing and raises nothing. The action does not succeed for \<^verbatim>\<open>label\<close>
  or \<^verbatim>\<open>unlabel\<close> with an empty \<^verbatim>\<open>label\<close> string: \<^verbatim>\<open>validate\<close> finds the key, no
  validator has resolved it, and \<^verbatim>\<open>restore_object\<close> raises \<open>AttributeError\<close>
  (\<open>KeyError\<close> when only an empty \<^verbatim>\<open>label_uuid\<close> was sent) before any message is
  touched.\<close>

theorem C10_bulk_action_pipeline:
  "let msgs = filter (\<lambda>m. msg_org m = org_id (org self) \<and> msg_direction m = INCOMING
                          \<and> msg_pk m \<in> set ids) Msg_objects;
       ser = MsgBulkActionSerializer self M Msg_objects;
       outcome = validate_and_restore ser [] (bulk_request ids action name uuid);
       name_ok = (name = None \<or> the name = [] \<or> is_valid_name M (the name));
       uuid_ok = (\<not> truthy uuid \<or> label_by_uuid self M (the uuid) \<noteq> None)
   in (action \<in> {''archive'', ''unarchive'', ''delete''} \<and> name_ok \<and> uuid_ok \<longrightarrow>
         outcome = Restored ()
           (map (\<lambda>m. if action = ''archive'' then Archive m
                      else if action = ''unarchive'' then Restore m else Release m) msgs))
    \<and> (action \<in> {''label'', ''unlabel''} \<and> name_ok \<and> truthy uuid
          \<and> label_by_uuid self M (the uuid) = Some l \<longrightarrow>
         outcome = Restored () [ToggleLabel l msgs (action = ''label'')])
    \<and> (action \<in> {''label'', ''unlabel''} \<and> \<not> truthy uuid \<and> name = Some n \<and> n \<noteq> []
          \<and> is_valid_name M n \<longrightarrow>
         outcome = Restored ()
           [ToggleLabel (label_get_or_create M (org self) (user self) n) msgs
              (action = ''label'')])
    \<and> (action \<in> {''label'', ''unlabel''} \<and> \<not> truthy uuid \<and> name = Some [] \<longrightarrow>
         outcome = Raised AttributeError [])
    \<and> (action \<in> {''label'', ''unlabel''} \<and> name = None \<and> uuid = Some [] \<longrightarrow>
         outcome = Raised (KeyError ''label'') [])
    \<and> (action \<in> {''label'', ''unlabel''} \<and> name = None \<and> uuid = None \<longrightarrow>
         outcome = Rejected [(''non_field_errors'',
                      [''For action %s you must also specify label or label_uuid''])])
    \<and> (action \<notin> set bulk_actions \<or> \<not> name_ok \<or> \<not> uuid_ok \<longrightarrow>
         (\<exists>errs. outcome = Rejected errs))
    \<and> (filter (\<lambda>m. msg_org m = org_id (org self) \<and> msg_direction m = INCOMING
                     \<and> msg_pk m \<in> set ids') Msg_objects = msgs \<longrightarrow>
         validate_and_restore ser [] (bulk_request ids' action name uuid) = outcome)"
proof -
  let ?ser = "MsgBulkActionSerializer self M Msg_objects"
  let ?msgs = "filter (\<lambda>m. msg_org m = org_id (org self) \<and> msg_direction m = INCOMING
                          \<and> msg_pk m \<in> set ids) Msg_objects"
  let ?outcome = "validate_and_restore ?ser [] (bulk_request ids action name uuid)"
  show ?thesis
    unfolding Let_def
  proof (intro conjI impI)
    assume a: "action \<in> {''archive'', ''unarchive'', ''delete''}
        \<and> (name = None \<or> the name = [] \<or> is_valid_name M (the name))
        \<and> (\<not> truthy uuid \<or> label_by_uuid self M (the uuid) \<noteq> None)"
    then have n: "name = None \<or> the name = [] \<or> is_valid_name M (the name)"
      and u: "\<not> truthy uuid \<or> label_by_uuid self M (the uuid) \<noteq> None"
      by blast+
    from a consider (archive) "action = ''archive''" | (unarchive) "action = ''unarchive''"
      | (delete) "action = ''delete''"
      by blast
    then show "?outcome = Restored ()
           (map (\<lambda>m. if action = ''archive'' then Archive m
                      else if action = ''unarchive'' then Restore m else Release m) ?msgs)"
    proof cases
      case archive
      then show ?thesis using bulk_archive [OF n u, of Msg_objects ids] by simp
    next
      case unarchive
      then show ?thesis using bulk_unarchive [OF n u, of Msg_objects ids] by simp
    next
      case delete
      then show ?thesis using bulk_delete [OF n u, of Msg_objects ids] by simp
    qed
  next
    assume a: "action \<in> {''label'', ''unlabel''}
        \<and> (name = None \<or> the name = [] \<or> is_valid_name M (the name))
        \<and> truthy uuid \<and> label_by_uuid self M (the uuid) = Some l"
    then have n: "name = None \<or> the name = [] \<or> is_valid_name M (the name)"
      and u: "truthy uuid" and l: "label_by_uuid self M (the uuid) = Some l"
      by blast+
    from a consider (label) "action = ''label''" | (unlabel) "action = ''unlabel''"
      by blast
    then show "?outcome = Restored () [ToggleLabel l ?msgs (action = ''label'')]"
    proof cases
      case label
      then show ?thesis using bulk_label_uuid [OF n u l, of Msg_objects ids] by simp
    next
      case unlabel
      then show ?thesis using bulk_unlabel_uuid [OF n u l, of Msg_objects ids] by simp
    qed
  next
    assume a: "action \<in> {''label'', ''unlabel''} \<and> \<not> truthy uuid \<and> name = Some n \<and> n \<noteq> []
          \<and> is_valid_name M n"
    then have u: "\<not> truthy uuid" and n: "n \<noteq> []" and v: "is_valid_name M n"
      by blast+
    from a consider (label) "action = ''label''" | (unlabel) "action = ''unlabel''"
      by blast
    then show "?outcome = Restored ()
           [ToggleLabel (label_get_or_create M (org self) (user self) n) ?msgs
              (action = ''label'')]"
    proof cases
      case label
      with a show ?thesis using bulk_label_name [OF u n v, of self Msg_objects ids] by simp
    next
      case unlabel
      with a show ?thesis using bulk_unlabel_name [OF u n v, of self Msg_objects ids] by simp
    qed
  next
    assume a: "action \<in> {''label'', ''unlabel''} \<and> \<not> truthy uuid \<and> name = Some []"
    then have u: "\<not> truthy uuid" by blast
    from a consider (label) "action = ''label''" | (unlabel) "action = ''unlabel''"
      by blast
    then show "?outcome = Raised AttributeError []"
    proof cases
      case label
      with a show ?thesis using bulk_label_empty_name [OF u, of self M Msg_objects ids] by simp
    next
      case unlabel
      with a show ?thesis using bulk_unlabel_empty_name [OF u, of self M Msg_objects ids] by simp
    qed
  next
    assume a: "action \<in> {''label'', ''unlabel''} \<and> name = None \<and> uuid = Some []"
    then consider (label) "action = ''label''" | (unlabel) "action = ''unlabel''"
      by blast
    then show "?outcome = Raised (KeyError ''label'') []"
    proof cases
      case label
      with a show ?thesis using bulk_label_empty_uuid [of self M Msg_objects ids] by simp
    next
      case unlabel
      with a show ?thesis using bulk_unlabel_empty_uuid [of self M Msg_objects ids] by simp
    qed
  next
    assume a: "action \<in> {''label'', ''unlabel''} \<and> name = None \<and> uuid = None"
    then consider (label) "action = ''label''" | (unlabel) "action = ''unlabel''"
      by blast
    then show "?outcome = Rejected [(''non_field_errors'',
                      [''For action %s you must also specify label or label_uuid''])]"
    proof cases
      case label
      with a show ?thesis using bulk_label_neither [of self M Msg_objects ids] by simp
    next
      case unlabel
      with a show ?thesis using bulk_unlabel_neither [of self M Msg_objects ids] by simp
    qed
  next
    assume "action \<notin> set bulk_actions
        \<or> \<not> (name = None \<or> the name = [] \<or> is_valid_name M (the name))
        \<or> \<not> (\<not> truthy uuid \<or> label_by_uuid self M (the uuid) \<noteq> None)"
    then show "\<exists>errs. ?outcome = Rejected errs"
      by (rule bulk_rejected)
  next
    assume "filter (\<lambda>m. msg_org m = org_id (org self) \<and> msg_direction m = INCOMING
                     \<and> msg_pk m \<in> set ids') Msg_objects = ?msgs"
    then show "validate_and_restore ?ser [] (bulk_request ids' action name uuid) = ?outcome"
      by (rule bulk_same_msgs)
  qed
qed

theorem C10_bulk_action_pipeline_witness:
  "validate_and_restore (MsgBulkActionSerializer demo_self demo_label_models demo_msgs) []
     (bulk_request [1, 2, 3, 4] ''archive'' None None)
   = Restored () [Archive \<lparr>msg_pk = 1, msg_org = 1, msg_direction = INCOMING\<rparr>]
   \<and> validate_and_restore (MsgBulkActionSerializer demo_self demo_label_models demo_msgs) []
       (bulk_request [1, 2, 3, 4] ''label'' None (Some ''l-1''))
     = Restored ()
         [ToggleLabel demo_label [\<lparr>msg_pk = 1, msg_org = 1, msg_direction = INCOMING\<rparr>] True]
   \<and> validate_and_restore (MsgBulkActionSerializer demo_self demo_label_models demo_msgs) []
       (bulk_request [1, 2, 3, 4] ''label'' (Some []) None)
     = Raised AttributeError []"
proof -
  have l: "label_by_uuid demo_self demo_label_models ''l-1'' = Some demo_label"
    by (simp add: label_by_uuid_def demo_label_models_def demo_label_def demo_self_def
        demo_org_def first_def)
  note archive = C10_bulk_action_pipeline [where self = demo_self and M = demo_label_models
      and Msg_objects = demo_msgs and ids = "[1, 2, 3, 4]" and action = "''archive''"
      and name = None and uuid = None, unfolded Let_def, THEN conjunct1]
  note by_uuid = C10_bulk_action_pipeline [where self = demo_self and M = demo_label_models
      and Msg_objects = demo_msgs and ids = "[1, 2, 3, 4]" and action = "''label''"
      and name = None and uuid = "Some ''l-1''" and l = demo_label, unfolded Let_def,
      THEN conjunct2, THEN conjunct1]
  note blank = C10_bulk_action_pipeline [where self = demo_self and M = demo_label_models
      and Msg_objects = demo_msgs and ids = "[1, 2, 3, 4]" and action = "''label''"
      and name = "Some []" and uuid = None, unfolded Let_def,
      THEN conjunct2, THEN conjunct2, THEN conjunct2, THEN conjunct1]
  have msgs: "filter (\<lambda>m. msg_org m = org_id (org demo_self) \<and> msg_direction m = INCOMING
                          \<and> msg_pk m \<in> set [1, 2, 3, 4]) demo_msgs
              = [\<lparr>msg_pk = 1, msg_org = 1, msg_direction = INCOMING\<rparr>]"
    by (simp add: demo_msgs_def demo_self_def demo_org_def)
  from archive have "validate_and_restore
       (MsgBulkActionSerializer demo_self demo_label_models demo_msgs) []
       (bulk_request [1, 2, 3, 4] ''archive'' None None)
     = Restored () (map Archive [\<lparr>msg_pk = 1, msg_org = 1, msg_direction = INCOMING\<rparr>])"
    unfolding msgs by (simp add: truthy_def)
  moreover from by_uuid have "validate_and_restore
       (MsgBulkActionSerializer demo_self demo_label_models demo_msgs) []
       (bulk_request [1, 2, 3, 4] ''label'' None (Some ''l-1''))
     = Restored ()
         [ToggleLabel demo_label [\<lparr>msg_pk = 1, msg_org = 1, msg_direction = INCOMING\<rparr>] True]"
    unfolding msgs by (simp add: truthy_def l)
  moreover from blank have "validate_and_restore
       (MsgBulkActionSerializer demo_self demo_label_models demo_msgs) []
       (bulk_request [1, 2, 3, 4] ''label'' (Some []) None)
     = Raised AttributeError []"
    by (simp add: truthy_def)
  ultimately show ?thesis by simp
qed

subsection \<open>FlowRunStartSerializer\<close>

text \<open>Claim C3 does not hold of the code. \<^verbatim>\<open>validate_flow_uuid\<close> looks the flow up
  without the tenant, and tests \<^verbatim>\<open>is_archived\<close> before it compares the tenants: for the
  caller of tenant 1, an unknown UUID raises \<^verbatim>\<open>DoesNotExist\<close>, the UUID of another
  tenant's flow is a validation error "flow does not exist", and the UUID of another
  tenant's archived flow is the validation error "You cannot start an archived flow."\<close>

theorem C3_flow_uuid_outcomes:
  "FlowRunStart_validate_flow_uuid demo_self demo_flows (demo_start ''flow-x'') = Inl DoesNotExist
   \<and> FlowRunStart_validate_flow_uuid demo_self demo_flows (demo_start ''flow-b'')
       = Inl (ValidationError ''Invalid UUID '%s' - flow does not exist.'')
   \<and> FlowRunStart_validate_flow_uuid demo_self demo_flows (demo_start ''flow-c'')
       = Inl (ValidationError ''You cannot start an archived flow.'')"
  by (simp add: FlowRunStart_validate_flow_uuid_def demo_self_def demo_org_def demo_flows_def
      demo_start_def truthy_def objects_get_def)

subsection \<open>ContactWriteSerializer\<close>

text \<open>Claim C1 as stated fails: an input with \<^verbatim>\<open>uuid\<close> and \<^verbatim>\<open>urns\<close> is accepted
  when no other contact of the tenant has one of the URNs.\<close>

theorem C1_uuid_with_urns_accepted:
  "truthy (ca_uuid (demo_contact_attrs\<lparr>ca_uuid := Some ''c-1'',
                                       ca_urns := Some [(''tel'', ''+250788999999'')]\<rparr>))
   \<and> truthy (ca_urns (demo_contact_attrs\<lparr>ca_uuid := Some ''c-1'',
                                         ca_urns := Some [(''tel'', ''+250788999999'')]\<rparr>))
   \<and> ContactWrite_validate demo_self demo_contacts
        (demo_contact_attrs\<lparr>ca_uuid := Some ''c-1'', ca_urns := Some [(''tel'', ''+250788999999'')]\<rparr>)
       = Inr (demo_contact_attrs\<lparr>ca_uuid := Some ''c-1'',
                                  ca_urns := Some [(''tel'', ''+250788999999'')]\<rparr>)"
  by (simp add: ContactWrite_validate_def demo_contact_attrs_def demo_contacts_def demo_self_def
      demo_org_def truthy_def other_contacts_def urn_string_def iexact_def lower_def)

lemma requested_urns_cases:
  "requested_urns attrs =
     (if truthy (ca_phone attrs) then [(TEL_SCHEME, the (ca_phone attrs))]
      else if truthy (ca_urns attrs) then the (ca_urns attrs) else [])"
  by (auto simp: requested_urns_def truthy_def split: option.splits list.splits)

lemma other_contacts_Nil [simp]: "other_contacts self Contact_objects [] uuid = []"
  by (simp add: other_contacts_def)

text \<open>Claim C1, amended: the identity rule rejects an input exactly when none of
  \<^verbatim>\<open>urns\<close>, \<^verbatim>\<open>phone\<close>, \<^verbatim>\<open>uuid\<close> is supplied or \<^verbatim>\<open>urns\<close> and \<^verbatim>\<open>phone\<close> are both
  supplied. \<^verbatim>\<open>validate\<close> accepts an input exactly when that rule passes, \<^verbatim>\<open>groups\<close> and
  \<^verbatim>\<open>group_uuids\<close> are not both supplied and, when \<^verbatim>\<open>uuid\<close> is supplied, no other
  contact of the tenant has one of the requested addresses.\<close>

theorem C1_contact_identity_rule:
  "(ContactWrite_validate self Contact_objects attrs
      = Inl (ValidationError ''Must provide either urns, phone or uuid but only one of each'')
    \<longleftrightarrow> (\<not> truthy (ca_urns attrs) \<and> \<not> truthy (ca_phone attrs) \<and> \<not> truthy (ca_uuid attrs))
         \<or> (truthy (ca_urns attrs) \<and> truthy (ca_phone attrs)))
   \<and> (ContactWrite_validate self Contact_objects attrs = Inr attrs
    \<longleftrightarrow> (truthy (ca_urns attrs) \<or> truthy (ca_phone attrs) \<or> truthy (ca_uuid attrs))
         \<and> \<not> (truthy (ca_urns attrs) \<and> truthy (ca_phone attrs))
         \<and> \<not> (truthy (ca_group_uuids attrs) \<and> truthy (ca_groups attrs))
         \<and> (truthy (ca_uuid attrs) \<longrightarrow>
              other_contacts self Contact_objects (map urn_string (requested_urns attrs))
                (the (ca_uuid attrs)) = []))"
  by (auto simp: ContactWrite_validate_def requested_urns_cases truthy_def Let_def
           split: option.splits)

theorem C1_contact_identity_rule_witness:
  "ContactWrite_validate demo_self demo_contacts
     (demo_contact_attrs\<lparr>ca_uuid := Some ''c-1'', ca_phone := Some ''+250788999999''\<rparr>)
   = Inr (demo_contact_attrs\<lparr>ca_uuid := Some ''c-1'', ca_phone := Some ''+250788999999''\<rparr>)
   \<and> ContactWrite_validate demo_self demo_contacts
       (demo_contact_attrs\<lparr>ca_phone := Some ''+250788999999'',
                           ca_urns := Some [(''tel'', ''+250788999999'')]\<rparr>)
     = Inl (ValidationError ''Must provide either urns, phone or uuid but only one of each'')"
  using C1_contact_identity_rule [of demo_self demo_contacts
      "demo_contact_attrs\<lparr>ca_uuid := Some ''c-1'', ca_phone := Some ''+250788999999''\<rparr>"]
    C1_contact_identity_rule [of demo_self demo_contacts
      "demo_contact_attrs\<lparr>ca_phone := Some ''+250788999999'',
                          ca_urns := Some [(''tel'', ''+250788999999'')]\<rparr>"]
  by (simp add: demo_contact_attrs_def demo_contacts_def demo_self_def demo_org_def truthy_def
      other_contacts_def urn_string_def requested_urns_def iexact_def lower_def TEL_SCHEME_def)

subsection \<open>The validation pipeline\<close>

lemma restore_fields_not_dict:
  "\<not> is_dict data \<Longrightarrow>
   WriteSerializer_restore_fields super no_attrs data
     = ([(''non_field_errors'', [''Request body should be a single JSON object''])], no_attrs)"
  by (simp add: WriteSerializer_restore_fields_def)

text \<open>Claim C6: for a request body that is not a single key-value mapping, the pipeline
  reports the structural error under \<^verbatim>\<open>non_field_errors\<close> and nothing else, whatever the
  per-field stage, the validators and the mutation of the serializer are, and no call into
  the model layer is made.\<close>

theorem C6_structural_error:
  assumes "\<not> is_dict data"
  shows "from_native super no_attrs ser data
           = Rejected [(''non_field_errors'', [''Request body should be a single JSON object''])]
         \<and> calls_of (from_native super no_attrs ser data) = []"
  using assms by (simp add: from_native_def restore_fields_not_dict validate_and_restore_def)

theorem C6_structural_error_witness:
  "from_native (\<lambda>data. ([], demo_campaign_attrs)) demo_campaign_attrs
     (CampaignWriteSerializer demo_self demo_campaign_models) (JList [JStr ''Reminders''])
     = Rejected [(''non_field_errors'', [''Request body should be a single JSON object''])]
   \<and> calls_of (from_native (\<lambda>data. ([], demo_campaign_attrs)) demo_campaign_attrs
       (CampaignWriteSerializer demo_self demo_campaign_models) (JList [JStr ''Reminders''])) = []"
  using C6_structural_error [of "JList [JStr ''Reminders'']" "\<lambda>data. ([], demo_campaign_attrs)"
      demo_campaign_attrs "CampaignWriteSerializer demo_self demo_campaign_models"]
  by (simp add: is_dict_def)

subsection \<open>CampaignWriteSerializer\<close>

text \<open>Claim C2 as stated fails: with both \<^verbatim>\<open>group\<close> and \<^verbatim>\<open>group_uuid\<close> present the
  pipeline creates the campaign, with the group that the UUID resolves to.\<close>

theorem C2_group_and_group_uuid_accepted:
  "truthy (cw_group demo_campaign_attrs) \<and> truthy (cw_group_uuid demo_campaign_attrs)
   \<and> validate_and_restore (CampaignWriteSerializer demo_self demo_campaign_models) []
        demo_campaign_attrs
       = Restored \<lparr>c_id = 1, c_uuid = ''c-new'', c_org = 1, c_name = ''Reminders'',
                   c_group = demo_group\<rparr>
           [CampaignCreate demo_org 7 ''Reminders'' demo_group]"
  by (simp add: validate_and_restore_def CampaignWriteSerializer_def demo_campaign_attrs_def
      demo_campaign_models_def demo_self_def demo_org_def demo_group_def truthy_def truthy_int_def
      CampaignWrite_validate_uuid_def CampaignWrite_validate_group_uuid_def
      CampaignWrite_validate_campaign_def CampaignWrite_validate_def
      CampaignWrite_restore_object_def first_def)

lemma validate_uuid_cases:
  "CampaignWrite_validate_uuid self M attrs
   = (if truthy (cw_uuid attrs)
      then (case campaign_by_uuid self M (the (cw_uuid attrs)) of
              Some c \<Rightarrow> Inr (attrs\<lparr>cw_campaign_obj := Some c\<rparr>)
            | None \<Rightarrow> Inl (ValidationError ''No campaign with UUID %s''))
      else Inr attrs)"
  by (simp add: CampaignWrite_validate_uuid_def campaign_by_uuid_def truthy_def
      split: option.splits)

lemma validate_campaign_cases:
  "CampaignWrite_validate_campaign self M attrs
   = (if truthy_int (cw_campaign attrs)
      then (case campaign_by_id self M (the (cw_campaign attrs)) of
              Some c \<Rightarrow> Inr (attrs\<lparr>cw_campaign_obj := Some c\<rparr>)
            | None \<Rightarrow> Inl (ValidationError ''No campaign with id %d''))
      else Inr attrs)"
  by (simp add: CampaignWrite_validate_campaign_def campaign_by_id_def truthy_int_def
      split: option.splits)

lemma validate_group_uuid_cases:
  "CampaignWrite_validate_group_uuid self M attrs
   = (if truthy (cw_group_uuid attrs)
      then (case group_by_uuid self M (the (cw_group_uuid attrs)) of
              Some g \<Rightarrow> Inr (attrs\<lparr>cw_group_obj := Some g\<rparr>)
            | None \<Rightarrow> Inl (ValidationError ''No contact group with UUID %s''))
      else Inr attrs)"
  by (simp add: CampaignWrite_validate_group_uuid_def group_by_uuid_def truthy_def
      split: option.splits)

lemma campaign_pipeline:
  assumes gu: "truthy (cw_group_uuid attrs)"
    and fresh: "cw_campaign_obj attrs = None" "cw_group_obj attrs = None"
  shows "validate_and_restore (CampaignWriteSerializer self M) [] attrs
   = (let by_uuid = (if truthy (cw_uuid attrs)
                     then campaign_by_uuid self M (the (cw_uuid attrs)) else None);
          by_id = (if truthy_int (cw_campaign attrs)
                   then campaign_by_id self M (the (cw_campaign attrs)) else None);
          grp = group_by_uuid self M (the (cw_group_uuid attrs));
          errs = (if truthy (cw_uuid attrs) \<and> by_uuid = None
                  then [(''uuid'', [''No campaign with UUID %s''])] else [])
               @ (if grp = None
                  then [(''group_uuid'', [''No contact group with UUID %s''])] else [])
               @ (if truthy_int (cw_campaign attrs) \<and> by_id = None
                  then [(''campaign'', [''No campaign with id %d''])] else [])
      in if errs \<noteq> [] then Rejected errs
         else if truthy_int (cw_campaign attrs) \<and> truthy (cw_uuid attrs)
         then Rejected [(''non_field_errors'', [''Can't specify both campaign and uuid''])]
         else (case (if truthy_int (cw_campaign attrs) then by_id else by_uuid) of
                 Some c \<Rightarrow>
                   Restored (c\<lparr>c_name := cw_name attrs, c_group := the grp\<rparr>)
                     [CampaignSave (c\<lparr>c_name := cw_name attrs, c_group := the grp\<rparr>)]
               | None \<Rightarrow>
                   Restored (campaign_create M (org self) (user self) (cw_name attrs) (the grp))
                     [CampaignCreate (org self) (user self) (cw_name attrs) (the grp)]))"
proof -
  let ?ser = "CampaignWriteSerializer self M"
  have hs: "hooks ?ser = [(''uuid'', CampaignWrite_validate_uuid self M),
                (''group_uuid'', CampaignWrite_validate_group_uuid self M),
                (''campaign'', CampaignWrite_validate_campaign self M)]"
    by (simp add: CampaignWriteSerializer_def)
  have va: "validate ?ser = CampaignWrite_validate"
    by (simp add: CampaignWriteSerializer_def)
  have ro: "restore_object ?ser
              = (\<lambda>a. CampaignWrite_restore_object self M a (None :: unit option))"
    by (simp add: CampaignWriteSerializer_def)
  show ?thesis
  proof (cases "group_by_uuid self M (the (cw_group_uuid attrs))")
    case None
    then show ?thesis
      using gu
      by (simp add: validate_and_restore_def hs validate_uuid_cases validate_campaign_cases
          validate_group_uuid_cases Let_def split: option.splits)
  next
    case (Some g)
    then show ?thesis
      using gu fresh
      by (simp add: validate_and_restore_def hs va ro validate_uuid_cases validate_campaign_cases
          validate_group_uuid_cases CampaignWrite_validate_def CampaignWrite_restore_object_def
          Let_def split: option.splits)
  qed
qed

text \<open>Claim C2, amended: \<^verbatim>\<open>validate\<close> asks only that one of \<^verbatim>\<open>group\<close> and
  \<^verbatim>\<open>group_uuid\<close> is supplied, so an input with both is not rejected for that, and
  \<^verbatim>\<open>restore_object\<close> uses a group resolved from \<^verbatim>\<open>group_uuid\<close> without looking the
  name up. For every input with a \<^verbatim>\<open>group_uuid\<close>, as the fields restore it (neither
  validator key set), the outcome of the pipeline is: the field errors of the three
  validators if there is one, among them the error on \<^verbatim>\<open>group_uuid\<close> when the UUID does
  not resolve; else the cross-field error when \<^verbatim>\<open>campaign\<close> and \<^verbatim>\<open>uuid\<close> are both
  supplied; else the campaign found by \<^verbatim>\<open>campaign\<close> or \<^verbatim>\<open>uuid\<close> saved with the new
  name and the group of the UUID, or a new campaign created with that group. The outcome
  is the same whatever the \<^verbatim>\<open>group\<close> name of the input is.\<close>

theorem C2_campaign_group_precedence:
  "(CampaignWrite_validate attrs
      = Inl (ValidationError ''Must specify either group name or group_uuid'')
    \<longleftrightarrow> \<not> truthy (cw_group attrs) \<and> \<not> truthy (cw_group_uuid attrs))
   \<and> (cw_group_obj attrs = Some g \<longrightarrow>
        CampaignWrite_restore_object self M attrs (None :: unit option)
          = (case cw_campaign_obj attrs of
               Some c \<Rightarrow> (Inr (c\<lparr>c_name := cw_name attrs, c_group := g\<rparr>),
                           [CampaignSave (c\<lparr>c_name := cw_name attrs, c_group := g\<rparr>)])
             | None \<Rightarrow> (Inr (campaign_create M (org self) (user self) (cw_name attrs) g),
                         [CampaignCreate (org self) (user self) (cw_name attrs) g])))
   \<and> (truthy (cw_group_uuid attrs) \<and> cw_campaign_obj attrs = None \<and> cw_group_obj attrs = None
        \<longrightarrow>
        validate_and_restore (CampaignWriteSerializer self M) [] attrs
          = (let by_uuid = (if truthy (cw_uuid attrs)
                            then campaign_by_uuid self M (the (cw_uuid attrs)) else None);
                 by_id = (if truthy_int (cw_campaign attrs)
                          then campaign_by_id self M (the (cw_campaign attrs)) else None);
                 grp = group_by_uuid self M (the (cw_group_uuid attrs));
                 errs = (if truthy (cw_uuid attrs) \<and> by_uuid = None
                         then [(''uuid'', [''No campaign with UUID %s''])] else [])
                      @ (if grp = None
                         then [(''group_uuid'', [''No contact group with UUID %s''])] else [])
                      @ (if truthy_int (cw_campaign attrs) \<and> by_id = None
                         then [(''campaign'', [''No campaign with id %d''])] else [])
             in if errs \<noteq> [] then Rejected errs
                else if truthy_int (cw_campaign attrs) \<and> truthy (cw_uuid attrs)
                then Rejected [(''non_field_errors'', [''Can't specify both campaign and uuid''])]
                else (case (if truthy_int (cw_campaign attrs) then by_id else by_uuid) of
                        Some c \<Rightarrow>
                          Restored (c\<lparr>c_name := cw_name attrs, c_group := the grp\<rparr>)
                            [CampaignSave (c\<lparr>c_name := cw_name attrs, c_group := the grp\<rparr>)]
                      | None \<Rightarrow>
                          Restored
                            (campaign_create M (org self) (user self) (cw_name attrs) (the grp))
                            [CampaignCreate (org self) (user self) (cw_name attrs) (the grp)]))
          \<and> validate_and_restore (CampaignWriteSerializer self M) [] (attrs\<lparr>cw_group := name\<rparr>)
              = validate_and_restore (CampaignWriteSerializer self M) [] attrs)"
proof (intro conjI impI)
  show "CampaignWrite_validate attrs
          = Inl (ValidationError ''Must specify either group name or group_uuid'')
        \<longleftrightarrow> \<not> truthy (cw_group attrs) \<and> \<not> truthy (cw_group_uuid attrs)"
    by (simp add: CampaignWrite_validate_def)
next
  assume "cw_group_obj attrs = Some g"
  then show "CampaignWrite_restore_object self M attrs (None :: unit option)
          = (case cw_campaign_obj attrs of
               Some c \<Rightarrow> (Inr (c\<lparr>c_name := cw_name attrs, c_group := g\<rparr>),
                           [CampaignSave (c\<lparr>c_name := cw_name attrs, c_group := g\<rparr>)])
             | None \<Rightarrow> (Inr (campaign_create M (org self) (user self) (cw_name attrs) g),
                         [CampaignCreate (org self) (user self) (cw_name attrs) g]))"
    by (simp add: CampaignWrite_restore_object_def Let_def split: option.splits)
next
  assume a: "truthy (cw_group_uuid attrs) \<and> cw_campaign_obj attrs = None
               \<and> cw_group_obj attrs = None"
  then have 1: "truthy (cw_group_uuid attrs)" and 2: "cw_campaign_obj attrs = None"
    and 3: "cw_group_obj attrs = None"
    by simp_all
  show "validate_and_restore (CampaignWriteSerializer self M) [] attrs
          = (let by_uuid = (if truthy (cw_uuid attrs)
                            then campaign_by_uuid self M (the (cw_uuid attrs)) else None);
                 by_id = (if truthy_int (cw_campaign attrs)
                          then campaign_by_id self M (the (cw_campaign attrs)) else None);
                 grp = group_by_uuid self M (the (cw_group_uuid attrs));
                 errs = (if truthy (cw_uuid attrs) \<and> by_uuid = None
                         then [(''uuid'', [''No campaign with UUID %s''])] else [])
                      @ (if grp = None
                         then [(''group_uuid'', [''No contact group with UUID %s''])] else [])
                      @ (if truthy_int (cw_campaign attrs) \<and> by_id = None
                         then [(''campaign'', [''No campaign with id %d''])] else [])
             in if errs \<noteq> [] then Rejected errs
                else if truthy_int (cw_campaign attrs) \<and> truthy (cw_uuid attrs)
                then Rejected [(''non_field_errors'', [''Can't specify both campaign and uuid''])]
                else (case (if truthy_int (cw_campaign attrs) then by_id else by_uuid) of
                        Some c \<Rightarrow>
                          Restored (c\<lparr>c_name := cw_name attrs, c_group := the grp\<rparr>)
                            [CampaignSave (c\<lparr>c_name := cw_name attrs, c_group := the grp\<rparr>)]
                      | None \<Rightarrow>
                          Restored
                            (campaign_create M (org self) (user self) (cw_name attrs) (the grp))
                            [CampaignCreate (org self) (user self) (cw_name attrs) (the grp)]))"
    by (rule campaign_pipeline [OF 1 2 3])
next
  assume a: "truthy (cw_group_uuid attrs) \<and> cw_campaign_obj attrs = None
               \<and> cw_group_obj attrs = None"
  then have 1: "truthy (cw_group_uuid attrs)" and 2: "cw_campaign_obj attrs = None"
    and 3: "cw_group_obj attrs = None"
    by simp_all
  from a have 4: "truthy (cw_group_uuid (attrs\<lparr>cw_group := name\<rparr>))"
    and 5: "cw_campaign_obj (attrs\<lparr>cw_group := name\<rparr>) = None"
    and 6: "cw_group_obj (attrs\<lparr>cw_group := name\<rparr>) = None"
    by simp_all
  show "validate_and_restore (CampaignWriteSerializer self M) []
                 (attrs\<lparr>cw_group := name\<rparr>)
               = validate_and_restore (CampaignWriteSerializer self M) [] attrs"
    using campaign_pipeline [OF 4 5 6, of self M] campaign_pipeline [OF 1 2 3, of self M]
    by (simp add: Let_def cong: if_cong option.case_cong)
qed

theorem C2_campaign_group_precedence_witness:
  "validate_and_restore
     (CampaignWriteSerializer demo_self
        (demo_campaign_models\<lparr>get_campaigns := \<lambda>org. [demo_campaign]\<rparr>)) []
     (demo_campaign_attrs\<lparr>cw_campaign := Some 5\<rparr>)
   = Restored (demo_campaign\<lparr>c_name := ''Reminders'', c_group := demo_group\<rparr>)
       [CampaignSave (demo_campaign\<lparr>c_name := ''Reminders'', c_group := demo_group\<rparr>)]
   \<and> validate_and_restore
       (CampaignWriteSerializer demo_self
          (demo_campaign_models\<lparr>get_campaigns := \<lambda>org. [demo_campaign]\<rparr>)) []
       (demo_campaign_attrs\<lparr>cw_campaign := Some 5, cw_group_uuid := Some ''g-9''\<rparr>)
     = Rejected [(''group_uuid'', [''No contact group with UUID %s''])]"
proof -
  let ?M = "demo_campaign_models\<lparr>get_campaigns := \<lambda>org. [demo_campaign]\<rparr>"
  note update = C2_campaign_group_precedence
    [where attrs = "demo_campaign_attrs\<lparr>cw_campaign := Some 5\<rparr>" and self = demo_self
       and M = ?M, THEN conjunct2, THEN conjunct2, THEN mp, THEN conjunct1]
  note unresolved = C2_campaign_group_precedence
    [where attrs = "demo_campaign_attrs\<lparr>cw_campaign := Some 5, cw_group_uuid := Some ''g-9''\<rparr>"
       and self = demo_self and M = ?M, THEN conjunct2, THEN conjunct2, THEN mp, THEN conjunct1]
  have g1: "group_by_uuid demo_self ?M ''g-1'' = Some demo_group"
    and g9: "group_by_uuid demo_self ?M ''g-9'' = None"
    and c5: "campaign_by_id demo_self ?M 5 = Some demo_campaign"
    by (simp_all add: group_by_uuid_def campaign_by_id_def demo_campaign_models_def
        demo_group_def demo_campaign_def demo_self_def demo_org_def first_def)
  have "validate_and_restore (CampaignWriteSerializer demo_self ?M) []
     (demo_campaign_attrs\<lparr>cw_campaign := Some 5\<rparr>)
   = Restored (demo_campaign\<lparr>c_name := ''Reminders'', c_group := demo_group\<rparr>)
       [CampaignSave (demo_campaign\<lparr>c_name := ''Reminders'', c_group := demo_group\<rparr>)]"
    using update
    by (simp add: demo_campaign_attrs_def truthy_def truthy_int_def g1 c5 Let_def)
  moreover have "validate_and_restore (CampaignWriteSerializer demo_self ?M) []
       (demo_campaign_attrs\<lparr>cw_campaign := Some 5, cw_group_uuid := Some ''g-9''\<rparr>)
     = Rejected [(''group_uuid'', [''No contact group with UUID %s''])]"
    using unresolved
    by (simp add: demo_campaign_attrs_def truthy_def truthy_int_def g9 c5 Let_def)
  ultimately show ?thesis by simp
qed

subsection \<open>CampaignEventWriteSerializer\<close>

lemma event_validate_Inr:
  "CampaignEventWrite_validate attrs = Inr attrs' \<Longrightarrow>
   attrs' = attrs \<and> truthy (ea_message attrs) \<noteq> (ea_flow_obj attrs \<noteq> None)"
  by (auto simp: CampaignEventWrite_validate_def split: if_splits)

text \<open>Claim C5: \<^verbatim>\<open>validate\<close> rejects attributes with both a message and a resolved
  flow, and attributes with neither; a pipeline whose validators leave such attributes
  reports that error and restores nothing; and whenever the pipeline does restore an event,
  the attributes that reached \<^verbatim>\<open>restore_object\<close> had exactly one of the two.\<close>

theorem C5_message_xor_flow:
  "(truthy (ea_message attrs) \<and> ea_flow_obj attrs \<noteq> None \<longrightarrow>
      CampaignEventWrite_validate attrs
        = Inl (ValidationError ''Events cannot have both a message and a flow''))
   \<and> (\<not> truthy (ea_message attrs) \<and> ea_flow_obj attrs = None \<longrightarrow>
      CampaignEventWrite_validate attrs
        = Inl (ValidationError ''Must specify either a flow or a message for the event''))
   \<and> (run_hooks (hooks (CampaignEventWriteSerializer self M)) [] attrs0 = Inr ([], attrs)
        \<and> truthy (ea_message attrs) = (ea_flow_obj attrs \<noteq> None) \<longrightarrow>
      (\<exists>m. validate_and_restore (CampaignEventWriteSerializer self M) [] attrs0
              = Rejected [(''non_field_errors'', [m])]))
   \<and> (validate_and_restore (CampaignEventWriteSerializer self M) errs attrs0 = Restored ev calls
        \<longrightarrow>
      (\<exists>attrs1. run_hooks (hooks (CampaignEventWriteSerializer self M)) [] attrs0
                   = Inr ([], attrs1)
               \<and> truthy (ea_message attrs1) \<noteq> (ea_flow_obj attrs1 \<noteq> None)))"
proof (intro conjI impI)
  assume "truthy (ea_message attrs) \<and> ea_flow_obj attrs \<noteq> None"
  then show "CampaignEventWrite_validate attrs
        = Inl (ValidationError ''Events cannot have both a message and a flow'')"
    by (simp add: CampaignEventWrite_validate_def)
next
  assume "\<not> truthy (ea_message attrs) \<and> ea_flow_obj attrs = None"
  then show "CampaignEventWrite_validate attrs
        = Inl (ValidationError ''Must specify either a flow or a message for the event'')"
    by (simp add: CampaignEventWrite_validate_def)
next
  assume a: "run_hooks (hooks (CampaignEventWriteSerializer self M)) [] attrs0 = Inr ([], attrs)
        \<and> truthy (ea_message attrs) = (ea_flow_obj attrs \<noteq> None)"
  have v: "validate (CampaignEventWriteSerializer self M) = CampaignEventWrite_validate"
    by (simp add: CampaignEventWriteSerializer_def)
  from a have "\<exists>m. CampaignEventWrite_validate attrs = Inl (ValidationError m)"
    by (auto simp: CampaignEventWrite_validate_def)
  then obtain m where "CampaignEventWrite_validate attrs = Inl (ValidationError m)" ..
  with a v have "validate_and_restore (CampaignEventWriteSerializer self M) [] attrs0
              = Rejected [(''non_field_errors'', [m])]"
    by (simp add: validate_and_restore_def)
  then show "\<exists>m. validate_and_restore (CampaignEventWriteSerializer self M) [] attrs0
              = Rejected [(''non_field_errors'', [m])]" ..
next
  assume r: "validate_and_restore (CampaignEventWriteSerializer self M) errs attrs0
               = Restored ev calls"
  have v: "validate (CampaignEventWriteSerializer self M) = CampaignEventWrite_validate"
    by (simp add: CampaignEventWriteSerializer_def)
  from r obtain attrs1 attrs2 where
      h: "run_hooks (hooks (CampaignEventWriteSerializer self M)) [] attrs0 = Inr ([], attrs1)"
    and "CampaignEventWrite_validate attrs1 = Inr attrs2"
    unfolding validate_and_restore_def v
    by (auto split: if_splits sum.splits prod.splits exn.splits)
  then have "truthy (ea_message attrs1) \<noteq> (ea_flow_obj attrs1 \<noteq> None)"
    using event_validate_Inr by blast
  with h show "\<exists>attrs1. run_hooks (hooks (CampaignEventWriteSerializer self M)) [] attrs0
                   = Inr ([], attrs1)
               \<and> truthy (ea_message attrs1) \<noteq> (ea_flow_obj attrs1 \<noteq> None)"
    by blast
qed

lemma demo_event_hooks:
  "run_hooks (hooks (CampaignEventWriteSerializer demo_self demo_event_models)) []
     (demo_event_attrs\<lparr>ea_message := Some ''Hi'', ea_flow_uuid := Some ''flow-a''\<rparr>)
   = Inr ([], demo_event_attrs\<lparr>ea_message := Some ''Hi'', ea_flow_uuid := Some ''flow-a'',
             ea_event_obj := Some demo_event, ea_flow_obj := Some (hd demo_flows)\<rparr>)"
  by (simp add: CampaignEventWriteSerializer_def demo_event_attrs_def demo_event_models_def
      demo_self_def demo_org_def demo_flows_def demo_event_def demo_campaign_def truthy_def
      truthy_int_def first_def CampaignEventWrite_validate_uuid_def
      CampaignEventWrite_validate_campaign_uuid_def CampaignEventWrite_validate_unit_def
      CampaignEventWrite_validate_delivery_hour_def CampaignEventWrite_validate_flow_uuid_def
      CampaignEventWrite_validate_event_def CampaignEventWrite_validate_campaign_def
      CampaignEventWrite_validate_flow_def)

theorem C5_message_xor_flow_witness:
  "\<exists>m. validate_and_restore (CampaignEventWriteSerializer demo_self demo_event_models) []
          (demo_event_attrs\<lparr>ea_message := Some ''Hi'', ea_flow_uuid := Some ''flow-a''\<rparr>)
        = Rejected [(''non_field_errors'', [m])]"
  using C5_message_xor_flow [of
      "demo_event_attrs\<lparr>ea_message := Some ''Hi'', ea_flow_uuid := Some ''flow-a'',
         ea_event_obj := Some demo_event, ea_flow_obj := Some (hd demo_flows)\<rparr>"
      demo_self demo_event_models
      "demo_event_attrs\<lparr>ea_message := Some ''Hi'', ea_flow_uuid := Some ''flow-a''\<rparr>"]
    demo_event_hooks
  by (simp add: truthy_def demo_event_attrs_def)

lemma switch_branch_uuid:
  "switch_branch self M attrs ev fl = (Inr ev', calls) \<Longrightarrow> e_uuid ev' = e_uuid ev"
  by (auto simp: switch_branch_def Let_def split: option.splits if_splits)

text \<open>Claim C4: for an update of an existing event, (a) when a flow is supplied the event
  keeps its UUID, becomes a flow event that points to the supplied flow (no longer to the
  hidden flow) and has no message; (b) when no flow is supplied and the event is not a
  message event, it keeps its UUID, becomes a message event and points to the flow that
  \<^verbatim>\<open>Flow.create_single_message\<close> returns for the supplied text; (c) when no flow is supplied
  and the event is a message event, it keeps its UUID and its flow, and that flow is
  updated with the supplied text; (d) every successful \<^verbatim>\<open>restore_object\<close>, update or
  create, ends with \<^verbatim>\<open>update_flow_name\<close> on the event it returns.\<close>

theorem C4_event_branch_switch:
  "(ea_event_obj attrs = Some ev \<and> ea_flow_obj attrs = Some fl \<longrightarrow>
      (\<exists>ev' calls.
         CampaignEventWrite_restore_object self M attrs (None :: unit option)
           = (Inr ev', calls @ [EventSave ev', UpdateFlowName ev'])
         \<and> e_uuid ev' = e_uuid ev \<and> e_event_type ev' = FLOW_EVENT \<and> e_flow ev' = fl
         \<and> e_message ev' = None))
   \<and> (ea_event_obj attrs = Some ev \<and> ea_flow_obj attrs = None
        \<and> e_event_type ev \<noteq> MESSAGE_EVENT \<longrightarrow>
      (\<exists>ev' calls.
         CampaignEventWrite_restore_object self M attrs (None :: unit option)
           = (Inr ev', calls @ [CreateSingleMessage (org self) (user self) (ea_message attrs),
                                EventSave ev', UpdateFlowName ev'])
         \<and> e_uuid ev' = e_uuid ev \<and> e_event_type ev' = MESSAGE_EVENT
         \<and> e_flow ev' = create_single_message M (org self) (user self) (ea_message attrs)
         \<and> e_message ev' = ea_message attrs))
   \<and> (ea_event_obj attrs = Some ev \<and> ea_flow_obj attrs = None
        \<and> e_event_type ev = MESSAGE_EVENT \<and> ea_message attrs = Some text \<longrightarrow>
      (\<exists>ev' calls.
         CampaignEventWrite_restore_object self M attrs (None :: unit option)
           = (Inr ev', calls @ [UpdateSingleMessageFlow (e_flow ev) text,
                                EventSave ev', UpdateFlowName ev'])
         \<and> e_uuid ev' = e_uuid ev \<and> e_event_type ev' = MESSAGE_EVENT
         \<and> e_flow ev' = e_flow ev \<and> e_message ev' = Some text))
   \<and> (CampaignEventWrite_restore_object self M attrs (None :: unit option) = (Inr ev'', calls'')
        \<longrightarrow> calls'' \<noteq> [] \<and> last calls'' = UpdateFlowName ev'')"
proof (intro conjI impI)
  assume "ea_event_obj attrs = Some ev \<and> ea_flow_obj attrs = Some fl"
  then show "\<exists>ev' calls.
         CampaignEventWrite_restore_object self M attrs (None :: unit option)
           = (Inr ev', calls @ [EventSave ev', UpdateFlowName ev'])
         \<and> e_uuid ev' = e_uuid ev \<and> e_event_type ev' = FLOW_EVENT \<and> e_flow ev' = fl
         \<and> e_message ev' = None"
    by (cases "get_by_label M (org self) (ea_relative_to attrs)")
       (simp_all add: CampaignEventWrite_restore_object_def switch_branch_def Let_def)
next
  assume "ea_event_obj attrs = Some ev \<and> ea_flow_obj attrs = None
        \<and> e_event_type ev \<noteq> MESSAGE_EVENT"
  then show "\<exists>ev' calls.
         CampaignEventWrite_restore_object self M attrs (None :: unit option)
           = (Inr ev', calls @ [CreateSingleMessage (org self) (user self) (ea_message attrs),
                                EventSave ev', UpdateFlowName ev'])
         \<and> e_uuid ev' = e_uuid ev \<and> e_event_type ev' = MESSAGE_EVENT
         \<and> e_flow ev' = create_single_message M (org self) (user self) (ea_message attrs)
         \<and> e_message ev' = ea_message attrs"
    by (cases "get_by_label M (org self) (ea_relative_to attrs)")
       (simp_all add: CampaignEventWrite_restore_object_def switch_branch_def Let_def)
next
  assume "ea_event_obj attrs = Some ev \<and> ea_flow_obj attrs = None
        \<and> e_event_type ev = MESSAGE_EVENT \<and> ea_message attrs = Some text"
  then show "\<exists>ev' calls.
         CampaignEventWrite_restore_object self M attrs (None :: unit option)
           = (Inr ev', calls @ [UpdateSingleMessageFlow (e_flow ev) text,
                                EventSave ev', UpdateFlowName ev'])
         \<and> e_uuid ev' = e_uuid ev \<and> e_event_type ev' = MESSAGE_EVENT
         \<and> e_flow ev' = e_flow ev \<and> e_message ev' = Some text"
    by (cases "get_by_label M (org self) (ea_relative_to attrs)")
       (simp_all add: CampaignEventWrite_restore_object_def switch_branch_def Let_def)
next
  assume "CampaignEventWrite_restore_object self M attrs (None :: unit option)
            = (Inr ev'', calls'')"
  then have last: "calls'' \<noteq> [] \<and> last calls'' = UpdateFlowName ev''"
    by (auto simp: CampaignEventWrite_restore_object_def Let_def
             split: option.splits prod.splits sum.splits)
  from last show "calls'' \<noteq> []" ..
  from last show "last calls'' = UpdateFlowName ev''" ..
qed

theorem C4_event_branch_switch_witness:
  "\<exists>ev' calls.
     CampaignEventWrite_restore_object demo_self demo_event_models
       (demo_event_attrs\<lparr>ea_event_obj := Some demo_event, ea_flow_obj := Some (hd demo_flows)\<rparr>)
       (None :: unit option)
       = (Inr ev', calls @ [EventSave ev', UpdateFlowName ev'])
     \<and> e_uuid ev' = ''ev-1'' \<and> e_event_type ev' = FLOW_EVENT \<and> e_flow ev' = hd demo_flows
     \<and> e_message ev' = None"
  using C4_event_branch_switch [of
      "demo_event_attrs\<lparr>ea_event_obj := Some demo_event, ea_flow_obj := Some (hd demo_flows)\<rparr>"
      demo_event "hd demo_flows" demo_self demo_event_models]
  by (simp add: demo_event_attrs_def demo_event_def)


subsection \<open>MsgCreateSerializer and BroadcastCreateSerializer\<close>

text \<open>Claim C7 does not hold of the code. Under an anonymous tenant a Broadcast create
  request that names a raw address is accepted: \<^verbatim>\<open>BroadcastCreateSerializer\<close> never
  reads \<^verbatim>\<open>is_anon\<close>, so the contact for the address and the broadcast are created. The
  same address in a Message create request, as \<^verbatim>\<open>urn\<close> or as \<^verbatim>\<open>phone\<close>, is rejected
  by \<^verbatim>\<open>validate_phone\<close>; and a \<^verbatim>\<open>urn\<close> that \<^verbatim>\<open>parse_urn\<close> refuses leaves
  \<^verbatim>\<open>MsgCreateSerializer.validate_urn\<close> as a \<open>ValueError\<close>, which is no validation
  error.\<close>

theorem C7_anonymous_tenant_outcomes:
  "is_anon (org anon_self)
   \<and> validate_and_restore (BroadcastCreateSerializer anon_self demo_msg_models) []
        demo_broadcast_attrs
       = Restored \<lparr>b_id = 1\<rparr>
           [ContactGetOrCreate 1 7 [(''tel'', ''+250788123123'')],
            BroadcastCreate (org anon_self) 7 ''Hello''
              [ToURN \<lparr>contact_uuid = ''c-new'', contact_org = 1, contact_is_active = True,
                      contact_urns = [''tel:+250788123123'']\<rparr> (''tel'', ''+250788123123'')]
              None,
            SendBroadcastTask 1]
   \<and> validate_and_restore (MsgCreateSerializer anon_self demo_msg_models) []
        (demo_msg_attrs\<lparr>mc_urn := Some (Raw [''tel:+250788123123'']), mc_contact := None\<rparr>)
       = Rejected [(''phone'', [''Cannot create messages for anonymous organizations''])]
   \<and> validate_and_restore (MsgCreateSerializer anon_self demo_msg_models) []
        (demo_msg_attrs\<lparr>mc_contact := None, mc_phone := Some [(''tel'', ''+250788123123'')]\<rparr>)
       = Rejected [(''phone'', [''Cannot create messages for anonymous organizations''])]
   \<and> validate_and_restore (MsgCreateSerializer anon_self demo_msg_models) []
        (demo_msg_attrs\<lparr>mc_urn := Some (Raw [''0788123123'']), mc_contact := None\<rparr>)
       = Raised ValueError []"
proof (intro conjI)
  show "is_anon (org anon_self)"
    by (simp add: anon_self_def)
next
  show "validate_and_restore (BroadcastCreateSerializer anon_self demo_msg_models) []
        demo_broadcast_attrs
       = Restored \<lparr>b_id = 1\<rparr>
           [ContactGetOrCreate 1 7 [(''tel'', ''+250788123123'')],
            BroadcastCreate (org anon_self) 7 ''Hello''
              [ToURN \<lparr>contact_uuid = ''c-new'', contact_org = 1, contact_is_active = True,
                      contact_urns = [''tel:+250788123123'']\<rparr> (''tel'', ''+250788123123'')]
              None,
            SendBroadcastTask 1]"
    by (simp add: validate_and_restore_def BroadcastCreateSerializer_def anon_self_def
        demo_msg_models_def demo_broadcast_attrs_def demo_channel_def demo_parse_urn_def
        demo_validate_urn_def TEL_SCHEME_def raw_items_def resolved_list_def truthy_slot_def
        urn_string_def BroadcastCreate_validate_urns_def BroadcastCreate_validate_contacts_def
        BroadcastCreate_validate_groups_def BroadcastCreate_validate_channel_def
        BroadcastCreate_validate_def BroadcastCreate_restore_object_def Let_def)
next
  show "validate_and_restore (MsgCreateSerializer anon_self demo_msg_models) []
        (demo_msg_attrs\<lparr>mc_urn := Some (Raw [''tel:+250788123123'']), mc_contact := None\<rparr>)
       = Rejected [(''phone'', [''Cannot create messages for anonymous organizations''])]"
    by (simp add: validate_and_restore_def MsgCreateSerializer_def anon_self_def
        demo_msg_models_def demo_msg_attrs_def demo_channel_def demo_parse_urn_def
        demo_validate_urn_def TEL_SCHEME_def raw_items_def org_channels_def
        MsgCreate_validate_channel_def MsgCreate_validate_urn_def MsgCreate_validate_contact_def
        MsgCreate_validate_phone_def Let_def)
next
  show "validate_and_restore (MsgCreateSerializer anon_self demo_msg_models) []
        (demo_msg_attrs\<lparr>mc_contact := None, mc_phone := Some [(''tel'', ''+250788123123'')]\<rparr>)
       = Rejected [(''phone'', [''Cannot create messages for anonymous organizations''])]"
    by (simp add: validate_and_restore_def MsgCreateSerializer_def anon_self_def
        demo_msg_models_def demo_msg_attrs_def demo_channel_def raw_items_def org_channels_def
        MsgCreate_validate_channel_def MsgCreate_validate_urn_def MsgCreate_validate_contact_def
        MsgCreate_validate_phone_def Let_def)
next
  show "validate_and_restore (MsgCreateSerializer anon_self demo_msg_models) []
        (demo_msg_attrs\<lparr>mc_urn := Some (Raw [''0788123123'']), mc_contact := None\<rparr>)
       = Raised ValueError []"
    by (simp add: validate_and_restore_def MsgCreateSerializer_def anon_self_def
        demo_msg_models_def demo_msg_attrs_def demo_channel_def demo_parse_urn_def
        raw_items_def org_channels_def MsgCreate_validate_channel_def MsgCreate_validate_urn_def
        Let_def)
qed

lemma run_hooks_keeps_errors:
  "run_hooks hs errs a = Inr (errs', a') \<Longrightarrow> errs \<noteq> [] \<Longrightarrow> errs' \<noteq> []"
proof (induction hs arbitrary: errs a)
  case Nil
  then show ?case by simp
next
  case (Cons fh hs)
  obtain f h where fh: "fh = (f, h)" by (cases fh)
  show ?case
  proof (cases "h a")
    case (Inr a2)
    with Cons fh show ?thesis by simp
  next
    case (Inl e)
    show ?thesis
    proof (cases e)
      case (ValidationError m)
      with Cons.prems Inl fh have "run_hooks hs (errs @ [(f, [m])]) a = Inr (errs', a')"
        by simp
      then show ?thesis using Cons.IH by blast
    qed (use Cons.prems Inl fh in simp_all)
  qed
qed

lemma run_hooks_failing_hook:
  assumes "(f, h) \<in> set hs" and "\<And>a. \<exists>m. h a = Inl (ValidationError m)"
    and "run_hooks hs errs a = Inr (errs', a')"
  shows "errs' \<noteq> []"
  using assms(1,3)
proof (induction hs arbitrary: errs a)
  case Nil
  then show ?case by simp
next
  case (Cons gk hs)
  obtain g k where gk: "gk = (g, k)" by (cases gk)
  show ?case
  proof (cases "gk = (f, h)")
    case True
    from assms(2) obtain m where "h a = Inl (ValidationError m)" by blast
    with True Cons.prems(2) have "run_hooks hs (errs @ [(f, [m])]) a = Inr (errs', a')"
      by simp
    then show ?thesis using run_hooks_keeps_errors by fastforce
  next
    case False
    with Cons.prems(1) have mem: "(f, h) \<in> set hs" by simp
    show ?thesis
    proof (cases "k a")
      case (Inr a2)
      with Cons.prems(2) gk have "run_hooks hs errs a2 = Inr (errs', a')" by simp
      with mem show ?thesis using Cons.IH by blast
    next
      case (Inl e)
      show ?thesis
      proof (cases e)
        case (ValidationError m)
        with Cons.prems(2) Inl gk have "run_hooks hs (errs @ [(g, [m])]) a = Inr (errs', a')"
          by simp
        with mem show ?thesis using Cons.IH by blast
      qed (use Cons.prems(2) Inl gk in simp_all)
    qed
  qed
qed

lemma not_restored_if_hook_fails:
  assumes "(f, h) \<in> set (hooks ser)" and "\<And>a. \<exists>m. h a = Inl (ValidationError m)"
  shows "validate_and_restore ser errs attrs \<noteq> Restored r calls
         \<and> calls_of (validate_and_restore ser errs attrs) = []"
proof (cases "errs = []")
  case False
  then show ?thesis by (simp add: validate_and_restore_def)
next
  case True
  show ?thesis
  proof (cases "run_hooks (hooks ser) [] attrs")
    case (Inl e)
    with True show ?thesis by (simp add: validate_and_restore_def)
  next
    case (Inr p)
    obtain errs' attrs' where p: "p = (errs', attrs')" by (cases p)
    with Inr assms have "errs' \<noteq> []" using run_hooks_failing_hook by fastforce
    with True Inr p show ?thesis by (simp add: validate_and_restore_def)
  qed
qed

text \<open>A Message create request under an anonymous tenant never reaches
  \<^verbatim>\<open>restore_object\<close>, whatever it names: \<^verbatim>\<open>validate_phone\<close> raises for every request,
  so no call into the model layer is made.\<close>

lemma anonymous_message_never_restored:
  assumes "is_anon (org self)"
  shows "MsgCreate_validate_phone self M attrs
           = Inl (ValidationError ''Cannot create messages for anonymous organizations'')
         \<and> from_native super no_attrs (MsgCreateSerializer self M) data \<noteq> Restored r calls
         \<and> calls_of (from_native super no_attrs (MsgCreateSerializer self M) data) = []"
proof -
  have phone: "\<And>a. MsgCreate_validate_phone self M a
           = Inl (ValidationError ''Cannot create messages for anonymous organizations'')"
    using assms by (simp add: MsgCreate_validate_phone_def)
  have mem: "(''phone'', MsgCreate_validate_phone self M) \<in> set (hooks (MsgCreateSerializer self M))"
    by (simp add: MsgCreateSerializer_def)
  have "\<And>a. \<exists>m. MsgCreate_validate_phone self M a = Inl (ValidationError m)"
    using phone by blast
  with mem have "\<And>errs a. validate_and_restore (MsgCreateSerializer self M) errs a \<noteq> Restored r calls
         \<and> calls_of (validate_and_restore (MsgCreateSerializer self M) errs a) = []"
    by (rule not_restored_if_hook_fails)
  with phone show ?thesis
    by (simp add: from_native_def split: prod.splits)
qed

text \<open>Claim C9 as stated fails: a Message create request without a channel is accepted
  when the tenant has an active channel.\<close>

theorem C9_message_without_channel_accepted:
  "mc_channel demo_msg_attrs = Some None
   \<and> validate_and_restore (MsgCreateSerializer demo_self demo_msg_models) [] demo_msg_attrs
       = Restored \<lparr>b_id = 1\<rparr>
           [BroadcastCreate demo_org 7 ''Hello'' [ToContact (hd demo_contacts)] None,
            BroadcastSend \<lparr>b_id = 1\<rparr>]"
  by (simp add: validate_and_restore_def MsgCreateSerializer_def demo_self_def demo_org_def
      demo_msg_models_def demo_msg_attrs_def demo_channel_def demo_contacts_def org_channels_def
      raw_items_def resolved_items_def truthy_slot_def truthy_def first_def
      MsgCreate_validate_channel_def MsgCreate_validate_urn_def MsgCreate_validate_contact_def
      MsgCreate_validate_phone_def MsgCreate_validate_def MsgCreate_restore_object_def Let_def)

lemma set_org_channels:
  "set (org_channels self M)
     = {c \<in> set (channels M). ch_is_active c \<and> ch_org c = org_id (org self)}"
  by (auto simp: org_channels_def)

lemma org_channels_head:
  assumes "org_channels self M = c # rest"
  shows "c \<in> set (org_channels self M) \<and> (\<forall>c'\<in>set (org_channels self M). ch_last_seen c' \<le> ch_last_seen c)"
proof -
  have "sorted (map (\<lambda>c. - ch_last_seen c) (org_channels self M))"
    by (simp add: org_channels_def)
  with assms have "\<forall>y\<in>set rest. - ch_last_seen c \<le> - ch_last_seen y"
    by simp
  with assms show ?thesis by auto
qed

text \<open>Claim C9, amended: the channel is optional. For a request without one,
  \<^verbatim>\<open>validate_channel\<close> fails only when the tenant has no active channel; otherwise it puts
  into the attributes an active channel of the tenant that no other was seen after, and
  validation goes on.\<close>

theorem C9_channel_defaults_to_latest:
  assumes "mc_channel attrs = Some None"
  shows "(org_channels self M = [] \<longrightarrow>
            MsgCreate_validate_channel self M attrs
              = Inl (ValidationError ''There are no channels for this organization.''))
         \<and> (org_channels self M \<noteq> [] \<longrightarrow>
            (\<exists>c. MsgCreate_validate_channel self M attrs = Inr (attrs\<lparr>mc_channel := Some (Some c)\<rparr>)
                \<and> c \<in> set (channels M) \<and> ch_is_active c \<and> ch_org c = org_id (org self)
                \<and> (\<forall>c'\<in>set (org_channels self M). ch_last_seen c' \<le> ch_last_seen c)))
         \<and> set (org_channels self M)
             = {c \<in> set (channels M). ch_is_active c \<and> ch_org c = org_id (org self)}"
proof (intro conjI impI)
  assume "org_channels self M = []"
  with assms show "MsgCreate_validate_channel self M attrs
              = Inl (ValidationError ''There are no channels for this organization.'')"
    by (simp add: MsgCreate_validate_channel_def)
next
  assume "org_channels self M \<noteq> []"
  then obtain c rest where cr: "org_channels self M = c # rest"
    by (cases "org_channels self M") auto
  from org_channels_head [OF cr]
  have mem: "c \<in> set (org_channels self M)"
    and latest: "\<forall>c'\<in>set (org_channels self M). ch_last_seen c' \<le> ch_last_seen c"
    by blast+
  from mem have props: "c \<in> set (channels M) \<and> ch_is_active c \<and> ch_org c = org_id (org self)"
    by (simp add: set_org_channels)
  with assms cr have "MsgCreate_validate_channel self M attrs
                        = Inr (attrs\<lparr>mc_channel := Some (Some c)\<rparr>)"
    by (simp add: MsgCreate_validate_channel_def)
  with props latest
  show "\<exists>c. MsgCreate_validate_channel self M attrs = Inr (attrs\<lparr>mc_channel := Some (Some c)\<rparr>)
                \<and> c \<in> set (channels M) \<and> ch_is_active c \<and> ch_org c = org_id (org self)
                \<and> (\<forall>c'\<in>set (org_channels self M). ch_last_seen c' \<le> ch_last_seen c)"
    by blast
next
  show "set (org_channels self M)
             = {c \<in> set (channels M). ch_is_active c \<and> ch_org c = org_id (org self)}"
    by (rule set_org_channels)
qed

theorem C9_channel_defaults_to_latest_witness:
  "MsgCreate_validate_channel demo_self demo_msg_models demo_msg_attrs
     = Inr (demo_msg_attrs\<lparr>mc_channel := Some (Some demo_channel)\<rparr>)
   \<and> MsgCreate_validate_channel demo_self (demo_msg_models\<lparr>channels := []\<rparr>) demo_msg_attrs
     = Inl (ValidationError ''There are no channels for this organization.'')"
proof -
  have a: "mc_channel demo_msg_attrs = Some None" by (simp add: demo_msg_attrs_def)
  have one: "org_channels demo_self demo_msg_models = [demo_channel]"
    by (simp add: org_channels_def demo_msg_models_def demo_channel_def demo_self_def demo_org_def)
  have none: "org_channels demo_self (demo_msg_models\<lparr>channels := []\<rparr>) = []"
    by (simp add: org_channels_def)
  from C9_channel_defaults_to_latest [OF a, of demo_self demo_msg_models] one
  have "MsgCreate_validate_channel demo_self demo_msg_models demo_msg_attrs
     = Inr (demo_msg_attrs\<lparr>mc_channel := Some (Some demo_channel)\<rparr>)"
    by (auto simp: demo_msg_models_def)
  moreover from C9_channel_defaults_to_latest [OF a, of demo_self "demo_msg_models\<lparr>channels := []\<rparr>"] none
  have "MsgCreate_validate_channel demo_self (demo_msg_models\<lparr>channels := []\<rparr>) demo_msg_attrs
     = Inl (ValidationError ''There are no channels for this organization.'')"
    by simp
  ultimately show ?thesis by simp
qed

end
